theory Spec2Isabelle
  imports Complex_Main "HOL-Library.Word" "HOL-Library.Signed_Division"
begin

section \<open>Data of the host (Ch00/WinMain.cpp)\<close>

text \<open>
  The host is one translation unit: \<^verbatim>\<open>WinMain\<close> (start-up, game loop, exit) and the
  window procedure \<^verbatim>\<open>WndProc\<close>. Both work on two globals, \<^verbatim>\<open>gApplication\<close> and
  \<^verbatim>\<open>gVertexArrayObject\<close>, and on the window system, OpenGL and the user's
  \<^verbatim>\<open>Application\<close> object. Every call that leaves the translation unit is recorded, in
  program order, in a trace; what the platform gives back (screen metrics, ticks, client
  rectangles, pending messages) is an input of the model.
\<close>

type_synonym DWORD = "32 word"
type_synonym UINT = "32 word"
type_synonym GLuint = "32 word"
type_synonym cint = "32 word" \<comment> \<open>\<^verbatim>\<open>int\<close> and \<^verbatim>\<open>LONG\<close>: 32 bits, read with \<open>sint\<close>\<close>
type_synonym WPARAM = "64 word"
type_synonym LPARAM = "64 word"
type_synonym HWND = nat \<comment> \<open>window, device-context and GL-context handles are opaque\<close>
type_synonym HDC = nat

record MSG =
  hwnd :: HWND
  message :: UINT
  wParam :: WPARAM
  lParam :: LPARAM

record RECT =
  left :: cint
  top :: cint
  right :: cint
  bottom :: cint

text \<open>The message numbers come from \<^verbatim>\<open>Windows.h\<close>; the values are those of the Win32 headers.\<close>

definition WM_DESTROY :: UINT where "WM_DESTROY = 0x0002"
definition WM_PAINT :: UINT where "WM_PAINT = 0x000F"
definition WM_CLOSE :: UINT where "WM_CLOSE = 0x0010"
definition WM_QUIT :: UINT where "WM_QUIT = 0x0012"
definition WM_ERASEBKGND :: UINT where "WM_ERASEBKGND = 0x0014"
definition WM_KEYDOWN :: UINT where "WM_KEYDOWN = 0x0100"
definition WM_KEYUP :: UINT where "WM_KEYUP = 0x0101"

text \<open>
  \<^verbatim>\<open>float\<close> values are kept as the expression the code evaluates. \<open>exact\<close> is the value
  of that expression over the reals, before any binary32 rounding; it is undefined
  (\<open>None\<close>) where the divisor is zero, where the machine yields an infinity or a NaN.
\<close>

datatype cfloat =
    FLit real \<comment> \<open>a literal such as \<^verbatim>\<open>0.001f\<close>\<close>
  | FOfDword DWORD \<comment> \<open>an unsigned 32-bit operand converted to \<^verbatim>\<open>float\<close>\<close>
  | FOfInt cint \<comment> \<open>\<^verbatim>\<open>(float)\<close> of an \<^verbatim>\<open>int\<close>\<close>
  | FMul cfloat cfloat
  | FDiv cfloat cfloat

fun exact :: "cfloat \<Rightarrow> real option" where
  "exact (FLit r) = Some r"
| "exact (FOfDword d) = Some (real (unat d))"
| "exact (FOfInt i) = Some (real_of_int (sint i))"
| "exact (FMul a b) =
     (case exact a of None \<Rightarrow> None
      | Some x \<Rightarrow> (case exact b of None \<Rightarrow> None | Some y \<Rightarrow> Some (x * y)))"
| "exact (FDiv a b) =
     (case exact a of None \<Rightarrow> None
      | Some x \<Rightarrow> (case exact b of None \<Rightarrow> None
                   | Some y \<Rightarrow> if y = 0 then None else Some (x / y)))"

text \<open>The calls that leave the translation unit, and the stores to the two globals.\<close>

datatype call =
    App_new
  | App_Initialize
  | App_Update cfloat
  | App_Render cfloat
  | App_Shutdown
  | App_delete
  | Store_gApplication nat
  | Store_gVertexArrayObject GLuint
  | C_cout string
  | C_cout_GLVersion
  | C_GetSystemMetrics
  | C_CreateWindowEx cint cint cint cint \<comment> \<open>x, y, nWidth, nHeight\<close>
  | C_PeekMessage "MSG option" \<comment> \<open>the message removed, if one was pending\<close>
  | C_TranslateMessage MSG
  | C_DispatchMessage MSG
  | C_GetTickCount DWORD
  | C_GetClientRect RECT
  | C_glViewport cint cint cint cint
  | C_glEnable string
  | C_glPointSize
  | C_glClearColor
  | C_glClear
  | C_glGenVertexArrays GLuint
  | C_glBindVertexArray GLuint
  | C_glDeleteVertexArrays GLuint
  | C_SwapBuffers HDC
  | C_glFinish
  | C_GetDC HWND
  | C_wglGetCurrentContext
  | C_wglMakeCurrent_NULL
  | C_wglDeleteContext_current
  | C_ReleaseDC HWND
  | C_PostQuitMessage cint
  | C_DestroyWindow HWND
  | C_DefWindowProc HWND UINT WPARAM LPARAM
  | C_other string \<comment> \<open>any other start-up call of the platform, by name\<close>

text \<open>
  The state both functions share. \<open>gApplication\<close> is the pointer (0 is the null pointer),
  \<open>heap_Application\<close> says whether the object it was made to point to still exists, and
  \<open>fault\<close> is raised by a member call through a null or dangling pointer and by a double
  \<^verbatim>\<open>delete\<close>: the behaviour the guards of the source are there to exclude. \<open>queue\<close> is the
  thread's message queue, which belongs to the window system.
\<close>

record world =
  gApplication :: nat
  gVertexArrayObject :: GLuint
  heap_Application :: bool
  fault :: bool
  queue :: "MSG list"
  trace :: "call list"

definition emit :: "call \<Rightarrow> world \<Rightarrow> world" where
  "emit c w = w\<lparr>trace := trace w @ [c]\<rparr>"

text \<open>\<^verbatim>\<open>gApplication->f(...)\<close>: a member call through the global pointer.\<close>

definition invoke :: "call \<Rightarrow> world \<Rightarrow> world" where
  "invoke c w =
     (if gApplication w = 0 \<or> \<not> heap_Application w then w\<lparr>fault := True\<rparr> else emit c w)"

text \<open>\<^verbatim>\<open>delete gApplication\<close>: nothing on a null pointer, a fault on a dangling one.\<close>

definition delete_gApplication :: "world \<Rightarrow> world" where
  "delete_gApplication w =
     (if gApplication w = 0 then w
      else if \<not> heap_Application w then w\<lparr>fault := True\<rparr>
      else emit App_delete (w\<lparr>heap_Application := False\<rparr>))"

definition store_gApplication :: "nat \<Rightarrow> world \<Rightarrow> world" where
  "store_gApplication p w = emit (Store_gApplication p) (w\<lparr>gApplication := p\<rparr>)"

definition store_gVertexArrayObject :: "GLuint \<Rightarrow> world \<Rightarrow> world" where
  "store_gVertexArrayObject v w =
     emit (Store_gVertexArrayObject v) (w\<lparr>gVertexArrayObject := v\<rparr>)"

text \<open>
  \<^verbatim>\<open>PostQuitMessage(n)\<close> is the window system's. What it does is taken from its
  documentation, which the spec repeats ("post the quit notification that will be observed
  by the next poll()", "Exit code: the OS message's payload value at quit time"): a
  \<open>WM_QUIT\<close> message stands behind the messages already pending, with \<open>wParam\<close> the
  \<^verbatim>\<open>int\<close> widened to \<^verbatim>\<open>WPARAM\<close>.
\<close>

definition PostQuitMessage :: "cint \<Rightarrow> world \<Rightarrow> world" where
  "PostQuitMessage n w =
     emit (C_PostQuitMessage n)
       (w\<lparr>queue := queue w @ [\<lparr>hwnd = 0, message = WM_QUIT, wParam = scast n, lParam = 0\<rparr>]\<rparr>)"

section \<open>The window procedure\<close>

text \<open>
  \<^verbatim>\<open>WndProc\<close>, branch by branch. \<^verbatim>\<open>WM_CLOSE\<close> and \<^verbatim>\<open>WM_DESTROY\<close> end in \<^verbatim>\<open>break\<close>, so
  they reach the \<^verbatim>\<open>return DefWindowProc(...)\<close> after the switch; \<^verbatim>\<open>WM_PAINT\<close> and
  \<^verbatim>\<open>WM_ERASEBKGND\<close> return 0 at once. The \<^verbatim>\<open>LRESULT\<close> goes back to the window system
  and is not part of the state. \<^verbatim>\<open>DefWindowProc\<close> is recorded as a call: what the default
  handling of the window system does with the message is not part of the model. The
  \<^verbatim>\<open>WM_DESTROY\<close> branch stands first because \<^verbatim>\<open>DestroyWindow\<close>, which the
  \<^verbatim>\<open>WM_CLOSE\<close> branch calls, runs it.
\<close>

definition on_WM_DESTROY :: "HWND \<Rightarrow> world \<Rightarrow> world" where
  "on_WM_DESTROY h w =
     (if gVertexArrayObject w \<noteq> 0 then
        PostQuitMessage 0
          (emit (C_ReleaseDC h)
            (emit C_wglDeleteContext_current
              (emit C_wglMakeCurrent_NULL
                (store_gVertexArrayObject 0
                  (emit (C_glDeleteVertexArrays (gVertexArrayObject w))
                    (emit (C_glBindVertexArray 0)
                      (emit C_wglGetCurrentContext
                        (emit (C_GetDC h) w))))))))
      else emit (C_cout (''Display multiple error msgs'' @ [CHR 0x0A])) w)"

text \<open>
  \<^verbatim>\<open>DestroyWindow(hwnd)\<close> is the window system's. Before it returns it sends
  \<^verbatim>\<open>WM_DESTROY\<close>, a message without parameters, to the window procedure of the window
  (Win32 documentation): \<^verbatim>\<open>WndProc\<close> takes its \<^verbatim>\<open>WM_DESTROY\<close> branch and leaves through
  \<^verbatim>\<open>return DefWindowProc(...)\<close>, inside the call.
\<close>

definition DestroyWindow :: "HWND \<Rightarrow> world \<Rightarrow> world" where
  "DestroyWindow h w =
     emit (C_DefWindowProc h WM_DESTROY 0 0) (on_WM_DESTROY h (emit (C_DestroyWindow h) w))"

definition on_WM_CLOSE :: "HWND \<Rightarrow> world \<Rightarrow> world" where
  "on_WM_CLOSE h w =
     (if gApplication w \<noteq> 0 then
        DestroyWindow h
          (store_gApplication 0 (delete_gApplication (invoke App_Shutdown w)))
      else emit (C_cout (''Already shut down gApplication!'' @ [CHR 0x0A])) w)"

definition WndProc :: "HWND \<Rightarrow> UINT \<Rightarrow> WPARAM \<Rightarrow> LPARAM \<Rightarrow> world \<Rightarrow> world" where
  "WndProc h iMsg wp lp w =
     (if iMsg = WM_CLOSE then emit (C_DefWindowProc h iMsg wp lp) (on_WM_CLOSE h w)
      else if iMsg = WM_DESTROY then emit (C_DefWindowProc h iMsg wp lp) (on_WM_DESTROY h w)
      else if iMsg = WM_PAINT \<or> iMsg = WM_ERASEBKGND then w
      else emit (C_DefWindowProc h iMsg wp lp) w)"

section \<open>The game loop\<close>

text \<open>
  The locals of \<^verbatim>\<open>WinMain\<close> that the loop reads or writes. \<open>msg\<close> is the \<^verbatim>\<open>MSG\<close> buffer,
  declared without an initialiser.
\<close>

record locals =
  main_hwnd :: HWND
  main_hdc :: HDC
  vsynch :: cint
  clientWidth :: cint
  clientHeight :: cint
  lastTick :: DWORD
  msg :: MSG

text \<open>
  What the platform supplies to one pass of the loop: the messages that came in for the
  thread since the previous poll, the value \<^verbatim>\<open>GetTickCount\<close> returns, and the rectangle
  \<^verbatim>\<open>GetClientRect\<close> writes. A notification the window system sends for a reason of its
  own (a \<^verbatim>\<open>WM_DESTROY\<close> without a close request before it) reaches the window procedure
  as a message of \<open>arrivals\<close>.
\<close>

record input =
  arrivals :: "MSG list"
  tick :: DWORD
  clientRect :: RECT

text \<open>
  \<^verbatim>\<open>PeekMessage(&msg, NULL, 0, 0, PM_REMOVE)\<close>: with a message pending, one message is
  removed from the queue and written to the buffer and the call returns true; with none,
  the buffer is left as it was and the call returns false. It never waits. The model hands
  the messages out in the order they came in; the order the window system keeps among
  messages of different kinds is not modelled.
\<close>

definition PeekMessage :: "MSG \<Rightarrow> world \<Rightarrow> bool \<times> MSG \<times> world" where
  "PeekMessage buf w =
     (case queue w of
        [] \<Rightarrow> (False, buf, emit (C_PeekMessage None) w)
      | m # ms \<Rightarrow> (True, m, emit (C_PeekMessage (Some m)) (w\<lparr>queue := ms\<rparr>)))"

definition TranslateMessage :: "MSG \<Rightarrow> world \<Rightarrow> world" where
  "TranslateMessage m w = emit (C_TranslateMessage m) w"

text \<open>
  \<^verbatim>\<open>DispatchMessage(&msg)\<close> calls the window procedure registered for the window class,
  \<^verbatim>\<open>wndclass.lpfnWndProc = WndProc\<close>, with the four fields of the buffer.
\<close>

definition DispatchMessage :: "MSG \<Rightarrow> world \<Rightarrow> world" where
  "DispatchMessage m w =
     WndProc (hwnd m) (message m) (wParam m) (lParam m) (emit (C_DispatchMessage m) w)"

datatype pass = Break locals world | Next_pass locals world

text \<open>
  Lines 226 to 231: the poll. The \<^verbatim>\<open>break\<close> needs both a message and that message being
  \<^verbatim>\<open>WM_QUIT\<close>; on every other path the buffer is translated and dispatched.
\<close>

definition process_window_events :: "locals \<Rightarrow> world \<Rightarrow> pass" where
  "process_window_events l w =
     (case PeekMessage (msg l) w of
        (got, m, w1) \<Rightarrow>
          if got \<and> message m = WM_QUIT then Break (l\<lparr>msg := m\<rparr>) w1
          else Next_pass (l\<lparr>msg := m\<rparr>) (DispatchMessage m (TranslateMessage m w1)))"

text \<open>Lines 234 to 237: the delta time and the guarded \<^verbatim>\<open>Update\<close>.\<close>

definition update_application :: "DWORD \<Rightarrow> locals \<Rightarrow> world \<Rightarrow> locals \<times> world" where
  "update_application thisTick l w =
     (let w1 = emit (C_GetTickCount thisTick) w;
          dt = FMul (FOfDword (thisTick - lastTick l)) (FLit 0.001);
          l1 = l\<lparr>lastTick := thisTick\<rparr>
      in (l1, if gApplication w1 \<noteq> 0 then invoke (App_Update dt) w1 else w1))"

text \<open>Lines 240 to 259: the frame is prepared and \<^verbatim>\<open>Render\<close> is called, all under one guard.\<close>

definition render_application :: "RECT \<Rightarrow> locals \<Rightarrow> world \<Rightarrow> locals \<times> world" where
  "render_application rc l w =
     (if gApplication w \<noteq> 0 then
        (let cw = right rc - left rc;
             ch = bottom rc - top rc;
             l1 = l\<lparr>clientWidth := cw, clientHeight := ch\<rparr>;
             w1 = emit (C_GetClientRect rc) w;
             w2 = emit (C_glViewport 0 0 cw ch) w1;
             w3 = emit (C_glEnable ''GL_DEPTH_TEST'') w2;
             w4 = emit (C_glEnable ''GL_CULL_FACE'') w3;
             w5 = emit C_glPointSize w4;
             w6 = emit (C_glBindVertexArray (gVertexArrayObject w5)) w5;
             w7 = emit C_glClearColor w6;
             w8 = emit C_glClear w7;
             aspect = FDiv (FOfInt cw) (FOfInt ch)
         in (l1, invoke (App_Render aspect) w8))
      else (l, w))"

text \<open>Lines 262 to 266: the buffer swap, and \<^verbatim>\<open>glFinish\<close> under vsynch.\<close>

definition present :: "locals \<Rightarrow> world \<Rightarrow> world" where
  "present l w =
     (if gApplication w \<noteq> 0 then
        (let w1 = emit (C_SwapBuffers (main_hdc l)) w
         in if vsynch l \<noteq> 0 then emit C_glFinish w1 else w1)
      else w)"

text \<open>One pass of \<^verbatim>\<open>while (true)\<close>. Messages posted since the last poll are in the queue first.\<close>

definition iteration :: "input \<Rightarrow> locals \<Rightarrow> world \<Rightarrow> pass" where
  "iteration i l w =
     (case process_window_events l (w\<lparr>queue := queue w @ arrivals i\<rparr>) of
        Break l1 w1 \<Rightarrow> Break l1 w1
      | Next_pass l1 w1 \<Rightarrow>
          (case update_application (tick i) l1 w1 of
             (l2, w2) \<Rightarrow>
               (case render_application (clientRect i) l2 w2 of
                  (l3, w3) \<Rightarrow> Next_pass l3 (present l3 w3))))"

text \<open>
  The loop over the inputs of its passes. It has no bound of its own: it leaves only
  through the \<^verbatim>\<open>break\<close>. \<open>Running\<close> is the loop still going when the given inputs are
  used up; \<open>Exited\<close> is the state at the \<^verbatim>\<open>break\<close>.
\<close>

datatype loop_state = Running locals world | Exited locals world

fun game_loop :: "input list \<Rightarrow> locals \<Rightarrow> world \<Rightarrow> loop_state" where
  "game_loop [] l w = Running l w"
| "game_loop (i # ins) l w =
     (case iteration i l w of
        Break l1 w1 \<Rightarrow> Exited l1 w1
      | Next_pass l1 w1 \<Rightarrow> game_loop ins l1 w1)"

section \<open>Start-up and exit of WinMain\<close>

text \<open>
  What the platform answers during start-up. \<open>AdjustWindowRectEx\<close> is the window
  system's map from a client rectangle to the window rectangle of the chosen style;
  \<open>stack_msg\<close> is whatever the stack holds where \<^verbatim>\<open>MSG msg;\<close> is declared.
\<close>

record platform =
  SM_CXSCREEN :: cint \<comment> \<open>\<^verbatim>\<open>GetSystemMetrics(SM_CXSCREEN)\<close>\<close>
  SM_CYSCREEN :: cint
  AdjustWindowRectEx :: "RECT \<Rightarrow> RECT"
  CreateWindowEx :: HWND \<comment> \<open>the handle it returns\<close>
  GetDC :: HDC
  gladLoadGL :: bool
  swapControlSupported :: bool \<comment> \<open>the outcome of the \<^verbatim>\<open>strstr\<close> test\<close>
  wglSwapIntervalEXT :: bool
  wglGetSwapIntervalEXT :: cint
  glGenVertexArrays :: GLuint \<comment> \<open>the name it writes to \<^verbatim>\<open>gVertexArrayObject\<close>\<close>
  GetTickCount :: DWORD \<comment> \<open>the reading of line 220\<close>
  stack_msg :: MSG

text \<open>\<^verbatim>\<open>a / b\<close> on \<^verbatim>\<open>int\<close>: the quotient truncated towards zero.\<close>

definition c_div :: "cint \<Rightarrow> cint \<Rightarrow> cint" where
  "c_div a b = word_of_int (sint a sdiv sint b)"

definition emits :: "call list \<Rightarrow> world \<Rightarrow> world" where
  "emits cs w = w\<lparr>trace := trace w @ cs\<rparr>"

text \<open>Lines 86 to 106: the rectangle set by \<^verbatim>\<open>SetRect\<close> and adjusted for the style.\<close>

definition windowRect :: "platform \<Rightarrow> RECT" where
  "windowRect p =
     (let screenWidth = SM_CXSCREEN p;
          screenHeight = SM_CYSCREEN p;
          clientWidth = 800;
          clientHeight = 600
      in AdjustWindowRectEx p
           \<lparr>left = c_div screenWidth 2 - c_div clientWidth 2,
            top = c_div screenHeight 2 - c_div clientHeight 2,
            right = c_div screenWidth 2 + c_div clientWidth 2,
            bottom = c_div screenHeight 2 + c_div clientHeight 2\<rparr>)"

text \<open>
  Lines 108 to 110: the arguments \<^verbatim>\<open>x, y, nWidth, nHeight\<close> of \<^verbatim>\<open>CreateWindowEx\<close> as the
  source passes them.
\<close>

definition create_window :: "platform \<Rightarrow> world \<Rightarrow> world" where
  "create_window p w =
     emit (C_CreateWindowEx (left (windowRect p)) (top (windowRect p))
             (SM_CXSCREEN p) (SM_CYSCREEN p))
       (emits [C_GetSystemMetrics, C_GetSystemMetrics,
               C_other ''SetRect'', C_other ''AdjustWindowRectEx''] w)"

text \<open>Lines 186 to 199: the swap interval, when the extension is there and can be set.\<close>

definition enable_vsynch :: "platform \<Rightarrow> world \<Rightarrow> cint \<times> world" where
  "enable_vsynch p w =
     (if swapControlSupported p then
        (let w1 = emits [C_other ''wglGetProcAddress'', C_other ''wglGetProcAddress'',
                         C_other ''wglSwapIntervalEXT''] w
         in if wglSwapIntervalEXT p
            then (wglGetSwapIntervalEXT p,
                  emits [C_cout (''Enabled vsynch'' @ [CHR 0x0A]),
                         C_other ''wglGetSwapIntervalEXT''] w1)
            else (0, emit (C_cout (''Couldn'' @ [CHR 0x27] @ ''t enable vsynch '' @ [CHR 0x0A])) w1))
      else (0, emit (C_cout (''WGL_EXT_swap_control not enabled'' @ [CHR 0x0A])) w))"

text \<open>The globals as the loader leaves them, before \<^verbatim>\<open>WinMain\<close> runs.\<close>

definition world0 :: world where
  "world0 = \<lparr>gApplication = 0, gVertexArrayObject = 0, heap_Application = False,
             fault = False, queue = [], trace = []\<rparr>"

text \<open>
  Lines 63 to 221. \<^verbatim>\<open>new Application()\<close> yields the address of a fresh object, never
  null; the model has one object, at address 1.
\<close>

definition startup :: "platform \<Rightarrow> locals \<times> world" where
  "startup p =
     (let w1 = store_gApplication 1 (emit App_new (world0\<lparr>heap_Application := True\<rparr>));
          w2 = emits [C_other ''LoadIcon'', C_other ''LoadIcon'', C_other ''LoadCursor'',
                      C_other ''RegisterClassEx''] w1;
          w3 = emit (C_GetDC (CreateWindowEx p)) (create_window p w2);
          w4 = emits [C_other ''ChoosePixelFormat'', C_other ''SetPixelFormat'',
                      C_other ''wglCreateContext'', C_other ''wglMakeCurrent'',
                      C_other ''wglGetProcAddress'', C_other ''wglCreateContextAttribsARB'',
                      C_other ''wglMakeCurrent'', C_other ''wglDeleteContext'',
                      C_other ''wglMakeCurrent'', C_other ''gladLoadGL''] w3;
          w5 = (if \<not> gladLoadGL p
                then emit (C_cout (''Couldn'' @ [CHR 0x27] @ ''t initialize GLAD'' @ [CHR 0x0A])) w4
                else emit C_cout_GLVersion w4);
          w6 = emits [C_other ''wglGetProcAddress'', C_other ''wglGetExtensionsStringEXT''] w5
      in case enable_vsynch p w6 of
           (vs, w7) \<Rightarrow>
             (let w8 = store_gVertexArrayObject (glGenVertexArrays p)
                         (emit (C_glGenVertexArrays (glGenVertexArrays p)) w7);
                  w9 = emit (C_glBindVertexArray (gVertexArrayObject w8)) w8;
                  w10 = emits [C_other ''ShowWindow'', C_other ''UpdateWindow''] w9;
                  w11 = invoke App_Initialize w10;
                  w12 = emit (C_GetTickCount (GetTickCount p)) w11
              in (\<lparr>main_hwnd = CreateWindowEx p, main_hdc = GetDC p, vsynch = vs,
                   clientWidth = 800, clientHeight = 600,
                   lastTick = GetTickCount p, msg = stack_msg p\<rparr>, w12)))"

text \<open>Lines 270 to 274: the safety net behind the loop.\<close>

definition after_loop :: "world \<Rightarrow> world" where
  "after_loop w =
     (if gApplication w \<noteq> 0
      then delete_gApplication
             (emit (C_cout (''Expected application to be null on exit '' @ [CHR 0x0A])) w)
      else w)"

text \<open>
  The whole of \<^verbatim>\<open>WinMain\<close> against the inputs of finitely many passes: either the loop is
  still going when they are used up, or it was left and \<^verbatim>\<open>(int)msg.wParam\<close> is returned.
\<close>

datatype outcome = Still_running locals world | Returned cint world

definition WinMain :: "platform \<Rightarrow> input list \<Rightarrow> outcome" where
  "WinMain p ins =
     (case startup p of
        (l0, w0) \<Rightarrow>
          (case game_loop ins l0 w0 of
             Running l w \<Rightarrow> Still_running l w
           | Exited l w \<Rightarrow> Returned (ucast (wParam (msg l))) (after_loop w)))"

fun final_world :: "outcome \<Rightarrow> world" where
  "final_world (Still_running l w) = w"
| "final_world (Returned c w) = w"

section \<open>Observations on runs\<close>

fun pass_world :: "pass \<Rightarrow> world" where
  "pass_world (Break l w) = w"
| "pass_world (Next_pass l w) = w"

fun pass_locals :: "pass \<Rightarrow> locals" where
  "pass_locals (Break l w) = l"
| "pass_locals (Next_pass l w) = l"

fun loop_world :: "loop_state \<Rightarrow> world" where
  "loop_world (Running l w) = w"
| "loop_world (Exited l w) = w"

text \<open>The calls made between two states of one run.\<close>

definition new_calls :: "world \<Rightarrow> world \<Rightarrow> call list" where
  "new_calls w w' = drop (length (trace w)) (trace w')"

text \<open>The arguments of the \<^verbatim>\<open>Update\<close> and of the \<^verbatim>\<open>Render\<close> calls of a trace, in order.\<close>

fun update_args :: "call list \<Rightarrow> cfloat list" where
  "update_args [] = []"
| "update_args (App_Update d # cs) = d # update_args cs"
| "update_args (c # cs) = update_args cs"

fun render_args :: "call list \<Rightarrow> cfloat list" where
  "render_args [] = []"
| "render_args (App_Render a # cs) = a # render_args cs"
| "render_args (c # cs) = render_args cs"

fun is_frame_call :: "call \<Rightarrow> bool" where
  "is_frame_call (App_Update d) = True"
| "is_frame_call (App_Render a) = True"
| "is_frame_call c = False"

text \<open>Every call through \<^verbatim>\<open>gApplication\<close>, and its \<^verbatim>\<open>delete\<close>.\<close>

fun is_member_call :: "call \<Rightarrow> bool" where
  "is_member_call App_Initialize = True"
| "is_member_call (App_Update d) = True"
| "is_member_call (App_Render a) = True"
| "is_member_call App_Shutdown = True"
| "is_member_call App_delete = True"
| "is_member_call c = False"

fun is_peek_call :: "call \<Rightarrow> bool" where
  "is_peek_call (C_PeekMessage m) = True"
| "is_peek_call c = False"

text \<open>The three calls of the poll.\<close>

fun is_pump_call :: "call \<Rightarrow> bool" where
  "is_pump_call (C_PeekMessage m) = True"
| "is_pump_call (C_TranslateMessage m) = True"
| "is_pump_call (C_DispatchMessage m) = True"
| "is_pump_call c = False"

text \<open>The calls only the body of the loop makes, never the window procedure.\<close>

fun is_loop_call :: "call \<Rightarrow> bool" where
  "is_loop_call (C_PeekMessage m) = True"
| "is_loop_call (C_TranslateMessage m) = True"
| "is_loop_call (C_DispatchMessage m) = True"
| "is_loop_call (C_GetTickCount t) = True"
| "is_loop_call (App_Update d) = True"
| "is_loop_call (C_GetClientRect r) = True"
| "is_loop_call (App_Render a) = True"
| "is_loop_call (C_SwapBuffers h) = True"
| "is_loop_call c = False"

text \<open>What follows the first \<^verbatim>\<open>Shutdown\<close> of a trace; empty when there is none.\<close>

definition calls_after_Shutdown :: "call list \<Rightarrow> call list" where
  "calls_after_Shutdown tr = tl (dropWhile (\<lambda>c. c \<noteq> App_Shutdown) tr)"

text \<open>
  The invariant of the lifecycle: no fault so far; a non-null pointer points to the live
  object and no \<^verbatim>\<open>Shutdown\<close> has been called; nothing behind the first \<^verbatim>\<open>Shutdown\<close> is a
  \<^verbatim>\<open>Shutdown\<close>, an \<^verbatim>\<open>Update\<close> or a \<^verbatim>\<open>Render\<close>.
\<close>

definition guarded :: "world \<Rightarrow> bool" where
  "guarded w \<longleftrightarrow>
     \<not> fault w \<and>
     (gApplication w \<noteq> 0 \<longrightarrow> heap_Application w \<and> App_Shutdown \<notin> set (trace w)) \<and>
     (\<forall>c \<in> set (calls_after_Shutdown (trace w)). c \<noteq> App_Shutdown \<and> \<not> is_frame_call c)"

text \<open>The global pointer is null or points to the live object.\<close>

definition pointer_valid :: "world \<Rightarrow> bool" where
  "pointer_valid w = (if gApplication w \<noteq> 0 then heap_Application w else True)"

text \<open>Every quit message that is pending carries the payload 0.\<close>

definition quits_carry_zero :: "world \<Rightarrow> bool" where
  "quits_carry_zero w = list_all (\<lambda>m. message m = WM_QUIT \<longrightarrow> wParam m = 0) (queue w)"

definition peeked :: "MSG list \<Rightarrow> MSG option" where
  "peeked q = (case q of [] \<Rightarrow> None | m # ms \<Rightarrow> Some m)"

text \<open>The calls of lines 237 to 265 when all three guards are passed.\<close>

definition frame_calls :: "input \<Rightarrow> locals \<Rightarrow> GLuint \<Rightarrow> call list" where
  "frame_calls i l vao =
     [App_Update (FMul (FOfDword (tick i - lastTick l)) (FLit 0.001)),
      C_GetClientRect (clientRect i),
      C_glViewport 0 0 (right (clientRect i) - left (clientRect i))
        (bottom (clientRect i) - top (clientRect i)),
      C_glEnable ''GL_DEPTH_TEST'', C_glEnable ''GL_CULL_FACE'', C_glPointSize,
      C_glBindVertexArray vao, C_glClearColor, C_glClear,
      App_Render (FDiv (FOfInt (right (clientRect i) - left (clientRect i)))
                       (FOfInt (bottom (clientRect i) - top (clientRect i)))),
      C_SwapBuffers (main_hdc l)] @ (if vsynch l \<noteq> 0 then [C_glFinish] else [])"

section \<open>Sample inputs\<close>

text \<open>A state with start-up done and nothing closed or destroyed yet.\<close>

definition w_alive :: world where
  "w_alive = \<lparr>gApplication = 1, gVertexArrayObject = 1, heap_Application = True,
              fault = False, queue = [], trace = []\<rparr>"

definition l_alive :: locals where
  "l_alive = \<lparr>main_hwnd = 7, main_hdc = 9, vsynch = 1, clientWidth = 800, clientHeight = 600,
              lastTick = 1000,
              msg = \<lparr>hwnd = 0, message = 0, wParam = 0, lParam = 0\<rparr>\<rparr>"

definition rc0 :: RECT where
  "rc0 = \<lparr>left = 0, top = 0, right = 800, bottom = 600\<rparr>"

definition m_close :: MSG where
  "m_close = \<lparr>hwnd = 7, message = WM_CLOSE, wParam = 0, lParam = 0\<rparr>"

definition m_destroy :: MSG where
  "m_destroy = \<lparr>hwnd = 7, message = WM_DESTROY, wParam = 0, lParam = 0\<rparr>"

definition m_paint :: MSG where
  "m_paint = \<lparr>hwnd = 7, message = WM_PAINT, wParam = 0, lParam = 0\<rparr>"

definition m_quit :: MSG where
  "m_quit = \<lparr>hwnd = 0, message = WM_QUIT, wParam = 0, lParam = 0\<rparr>"

text \<open>A key pressed and released: virtual key 65, the Windows key code of A.\<close>

definition m_keydown :: MSG where
  "m_keydown = \<lparr>hwnd = 7, message = WM_KEYDOWN, wParam = 65, lParam = 0\<rparr>"

definition m_keyup :: MSG where
  "m_keyup = \<lparr>hwnd = 7, message = WM_KEYUP, wParam = 65, lParam = 0\<rparr>"

definition i_keys :: input where
  "i_keys = \<lparr>arrivals = [m_keydown, m_keyup], tick = 1016,
             clientRect = \<lparr>left = 0, top = 0, right = 800, bottom = 600\<rparr>\<rparr>"

text \<open>A state behind the close request and the teardown, with nothing pending.\<close>

definition w_closed :: world where
  "w_closed = \<lparr>gApplication = 0, gVertexArrayObject = 0, heap_Application = False,
               fault = False, queue = [], trace = []\<rparr>"

text \<open>
  A 1920 by 1080 display, a window style whose frame adds 8 pixels at the left, right and
  bottom and 31 at the top, vsynch available.
\<close>

definition p0 :: platform where
  "p0 = \<lparr>SM_CXSCREEN = 1920, SM_CYSCREEN = 1080,
          AdjustWindowRectEx =
            (\<lambda>r. \<lparr>left = left r - 8, top = top r - 31, right = right r + 8,
                   bottom = bottom r + 8\<rparr>),
          CreateWindowEx = 7, GetDC = 9, gladLoadGL = True, swapControlSupported = True,
          wglSwapIntervalEXT = True, wglGetSwapIntervalEXT = 1, glGenVertexArrays = 1,
          GetTickCount = 1000,
          stack_msg = \<lparr>hwnd = 0, message = 0, wParam = 0, lParam = 0\<rparr>\<rparr>"

text \<open>
  The scenario of the spec: a frame, then the close request, whose \<^verbatim>\<open>DestroyWindow\<close>
  brings the destroy notification, then the poll that finds the quit message.
\<close>

definition ins0 :: "input list" where
  "ins0 = [\<lparr>arrivals = [m_paint], tick = 1016, clientRect = rc0\<rparr>,
           \<lparr>arrivals = [m_close], tick = 1032, clientRect = rc0\<rparr>,
           \<lparr>arrivals = [], tick = 1065, clientRect = rc0\<rparr>]"

definition trace0 :: "call list" where
  "trace0 =
     [App_new, Store_gApplication 1, C_other ''LoadIcon'', C_other ''LoadIcon'',
      C_other ''LoadCursor'', C_other ''RegisterClassEx'', C_GetSystemMetrics,
      C_GetSystemMetrics, C_other ''SetRect'', C_other ''AdjustWindowRectEx'',
      C_CreateWindowEx 552 209 1920 1080, C_GetDC 7,
      C_other ''ChoosePixelFormat'', C_other ''SetPixelFormat'',
      C_other ''wglCreateContext'', C_other ''wglMakeCurrent'',
      C_other ''wglGetProcAddress'', C_other ''wglCreateContextAttribsARB'',
      C_other ''wglMakeCurrent'', C_other ''wglDeleteContext'', C_other ''wglMakeCurrent'',
      C_other ''gladLoadGL'', C_cout_GLVersion,
      C_other ''wglGetProcAddress'', C_other ''wglGetExtensionsStringEXT'',
      C_other ''wglGetProcAddress'', C_other ''wglGetProcAddress'',
      C_other ''wglSwapIntervalEXT'', C_cout (''Enabled vsynch'' @ [CHR 0x0A]),
      C_other ''wglGetSwapIntervalEXT'', C_glGenVertexArrays 1,
      Store_gVertexArrayObject 1, C_glBindVertexArray 1,
      C_other ''ShowWindow'', C_other ''UpdateWindow'', App_Initialize,
      C_GetTickCount 1000,
      C_PeekMessage (Some m_paint), C_TranslateMessage m_paint, C_DispatchMessage m_paint,
      C_GetTickCount 1016,
      App_Update (FMul (FOfDword 16) (FLit 0.001)),
      C_GetClientRect rc0, C_glViewport 0 0 800 600, C_glEnable ''GL_DEPTH_TEST'',
      C_glEnable ''GL_CULL_FACE'', C_glPointSize, C_glBindVertexArray 1,
      C_glClearColor, C_glClear,
      App_Render (FDiv (FOfInt 800) (FOfInt 600)), C_SwapBuffers 9, C_glFinish,
      C_PeekMessage (Some m_close), C_TranslateMessage m_close, C_DispatchMessage m_close,
      App_Shutdown, App_delete, Store_gApplication 0, C_DestroyWindow 7,
      C_GetDC 7, C_wglGetCurrentContext, C_glBindVertexArray 0,
      C_glDeleteVertexArrays 1, Store_gVertexArrayObject 0,
      C_wglMakeCurrent_NULL, C_wglDeleteContext_current, C_ReleaseDC 7,
      C_PostQuitMessage 0, C_DefWindowProc 7 WM_DESTROY 0 0,
      C_DefWindowProc 7 WM_CLOSE 0 0, C_GetTickCount 1032,
      C_PeekMessage (Some m_quit)]"

text \<open>A pass with nothing pending, across the wrap of the tick counter.\<close>

definition i_idle :: input where
  "i_idle = \<lparr>arrivals = [], tick = 16, clientRect = rc0\<rparr>"

definition l_wrap :: locals where
  "l_wrap = l_alive\<lparr>lastTick := 4294967280\<rparr>"

definition w_idle :: world where
  "w_idle = \<lparr>gApplication = 1, gVertexArrayObject = 1, heap_Application = True, fault = False,
      queue = [],
      trace = [C_PeekMessage None,
               C_TranslateMessage \<lparr>hwnd = 0, message = 0, wParam = 0, lParam = 0\<rparr>,
               C_DispatchMessage \<lparr>hwnd = 0, message = 0, wParam = 0, lParam = 0\<rparr>,
               C_DefWindowProc 0 0 0 0, C_GetTickCount 16,
               App_Update (FMul (FOfDword 32) (FLit 0.001)),
               C_GetClientRect rc0, C_glViewport 0 0 800 600,
               C_glEnable ''GL_DEPTH_TEST'', C_glEnable ''GL_CULL_FACE'', C_glPointSize,
               C_glBindVertexArray 1, C_glClearColor, C_glClear,
               App_Render (FDiv (FOfInt 800) (FOfInt 600)), C_SwapBuffers 9, C_glFinish]\<rparr>"

section \<open>The two lifecycle branches of the window procedure\<close>

lemmas wm_defs = WM_CLOSE_def WM_DESTROY_def WM_PAINT_def WM_QUIT_def WM_ERASEBKGND_def
  WM_KEYDOWN_def WM_KEYUP_def

lemmas msg_defs = m_close_def m_destroy_def m_paint_def m_quit_def m_keydown_def m_keyup_def

lemma close_steps:
  "gApplication w \<noteq> 0 \<Longrightarrow> heap_Application w \<Longrightarrow>
   emit (C_DestroyWindow h)
     (store_gApplication 0 (delete_gApplication (invoke App_Shutdown w))) =
     w\<lparr>gApplication := 0, heap_Application := False,
       trace := trace w @ [App_Shutdown, App_delete, Store_gApplication 0, C_DestroyWindow h]\<rparr>"
  by (simp add: invoke_def delete_gApplication_def store_gApplication_def emit_def)

lemma on_WM_CLOSE_alive:
  assumes "gApplication w \<noteq> 0" and "heap_Application w"
  shows "on_WM_CLOSE h w =
     emit (C_DefWindowProc h WM_DESTROY 0 0)
       (on_WM_DESTROY h
         (w\<lparr>gApplication := 0, heap_Application := False,
            trace := trace w @
              [App_Shutdown, App_delete, Store_gApplication 0, C_DestroyWindow h]\<rparr>))"
proof -
  from assms(1) have "on_WM_CLOSE h w =
      DestroyWindow h (store_gApplication 0 (delete_gApplication (invoke App_Shutdown w)))"
    by (simp add: on_WM_CLOSE_def)
  then show ?thesis
    unfolding DestroyWindow_def close_steps [OF assms] .
qed

lemma on_WM_CLOSE_dead:
  "gApplication w = 0 \<Longrightarrow>
   on_WM_CLOSE h w =
     w\<lparr>trace := trace w @ [C_cout (''Already shut down gApplication!'' @ [CHR 0x0A])]\<rparr>"
  by (simp add: on_WM_CLOSE_def emit_def)

lemma on_WM_DESTROY_allocated:
  "gVertexArrayObject w \<noteq> 0 \<Longrightarrow>
   on_WM_DESTROY h w =
     w\<lparr>gVertexArrayObject := 0,
       queue := queue w @ [\<lparr>hwnd = 0, message = WM_QUIT, wParam = 0, lParam = 0\<rparr>],
       trace := trace w @
         [C_GetDC h, C_wglGetCurrentContext, C_glBindVertexArray 0,
          C_glDeleteVertexArrays (gVertexArrayObject w), Store_gVertexArrayObject 0,
          C_wglMakeCurrent_NULL, C_wglDeleteContext_current, C_ReleaseDC h,
          C_PostQuitMessage 0]\<rparr>"
  by (simp add: on_WM_DESTROY_def PostQuitMessage_def store_gVertexArrayObject_def emit_def)

lemma on_WM_DESTROY_released:
  "gVertexArrayObject w = 0 \<Longrightarrow>
   on_WM_DESTROY h w =
     w\<lparr>trace := trace w @ [C_cout (''Display multiple error msgs'' @ [CHR 0x0A])]\<rparr>"
  by (simp add: on_WM_DESTROY_def emit_def)

lemma DestroyWindow_sends:
  "DestroyWindow h w = WndProc h WM_DESTROY 0 0 (emit (C_DestroyWindow h) w)"
  by (simp add: DestroyWindow_def WndProc_def wm_defs)

lemma close_alive_allocated:
  "gApplication w \<noteq> 0 \<Longrightarrow> heap_Application w \<Longrightarrow> gVertexArrayObject w \<noteq> 0 \<Longrightarrow>
   WndProc h WM_CLOSE wp lp w =
     w\<lparr>gApplication := 0, gVertexArrayObject := 0, heap_Application := False,
       queue := queue w @ [\<lparr>hwnd = 0, message = WM_QUIT, wParam = 0, lParam = 0\<rparr>],
       trace := trace w @
         [App_Shutdown, App_delete, Store_gApplication 0, C_DestroyWindow h,
          C_GetDC h, C_wglGetCurrentContext, C_glBindVertexArray 0,
          C_glDeleteVertexArrays (gVertexArrayObject w), Store_gVertexArrayObject 0,
          C_wglMakeCurrent_NULL, C_wglDeleteContext_current, C_ReleaseDC h,
          C_PostQuitMessage 0, C_DefWindowProc h WM_DESTROY 0 0,
          C_DefWindowProc h WM_CLOSE wp lp]\<rparr>"
  by (simp add: WndProc_def on_WM_CLOSE_alive on_WM_DESTROY_allocated emit_def)

lemma close_alive_released:
  "gApplication w \<noteq> 0 \<Longrightarrow> heap_Application w \<Longrightarrow> gVertexArrayObject w = 0 \<Longrightarrow>
   WndProc h WM_CLOSE wp lp w =
     w\<lparr>gApplication := 0, heap_Application := False,
       trace := trace w @
         [App_Shutdown, App_delete, Store_gApplication 0, C_DestroyWindow h,
          C_cout (''Display multiple error msgs'' @ [CHR 0x0A]),
          C_DefWindowProc h WM_DESTROY 0 0, C_DefWindowProc h WM_CLOSE wp lp]\<rparr>"
  by (simp add: WndProc_def on_WM_CLOSE_alive on_WM_DESTROY_released emit_def)

lemma close_dead:
  "gApplication w = 0 \<Longrightarrow>
   WndProc h WM_CLOSE wp lp w =
     w\<lparr>trace := trace w @ [C_cout (''Already shut down gApplication!'' @ [CHR 0x0A]),
                           C_DefWindowProc h WM_CLOSE wp lp]\<rparr>"
  by (simp add: WndProc_def on_WM_CLOSE_dead emit_def)

text \<open>
  A close request on a state with the Application already destroyed: behind the
  diagnostic the message goes to \<^verbatim>\<open>DefWindowProc\<close>, so the diagnostic is not the only call.
\<close>

theorem close_when_destroyed_reaches_DefWindowProc:
  "WndProc 7 WM_CLOSE 0 0 w_closed =
     w_closed\<lparr>trace := [C_cout (''Already shut down gApplication!'' @ [CHR 0x0A]),
                         C_DefWindowProc 7 WM_CLOSE 0 0]\<rparr> \<and>
   WndProc 7 WM_CLOSE 0 0 w_closed \<noteq>
     w_closed\<lparr>trace := [C_cout (''Already shut down gApplication!'' @ [CHR 0x0A])]\<rparr>"
  by (simp add: WndProc_def on_WM_CLOSE_def w_closed_def emit_def)

text \<open>
  C1, as the code has it. A close request that finds the Application alive calls
  \<^verbatim>\<open>Shutdown\<close> once, deletes the object once, stores the null pointer and then calls
  \<^verbatim>\<open>DestroyWindow\<close>, in this order, and ends with the null pointer; with the vertex array
  allocated, the destroy notification that \<^verbatim>\<open>DestroyWindow\<close> sends runs the teardown
  inside the call. A close request that finds the pointer null calls no \<^verbatim>\<open>Shutdown\<close>,
  no \<^verbatim>\<open>delete\<close> and no \<^verbatim>\<open>DestroyWindow\<close> and changes neither global: it prints the
  diagnostic. In both cases the procedure then hands the close message to
  \<^verbatim>\<open>DefWindowProc\<close>, its last call.
\<close>

theorem close_request:
  "(gApplication w \<noteq> 0 \<and> heap_Application w \<longrightarrow>
      gApplication (WndProc h WM_CLOSE wp lp w) = 0 \<and>
      take 4 (new_calls w (WndProc h WM_CLOSE wp lp w)) =
        [App_Shutdown, App_delete, Store_gApplication 0, C_DestroyWindow h] \<and>
      count_list (new_calls w (WndProc h WM_CLOSE wp lp w)) App_Shutdown = 1 \<and>
      count_list (new_calls w (WndProc h WM_CLOSE wp lp w)) App_delete = 1 \<and>
      count_list (new_calls w (WndProc h WM_CLOSE wp lp w)) (C_DestroyWindow h) = 1 \<and>
      last (new_calls w (WndProc h WM_CLOSE wp lp w)) = C_DefWindowProc h WM_CLOSE wp lp) \<and>
   (gApplication w \<noteq> 0 \<and> heap_Application w \<and> gVertexArrayObject w \<noteq> 0 \<longrightarrow>
      WndProc h WM_CLOSE wp lp w =
        w\<lparr>gApplication := 0, gVertexArrayObject := 0, heap_Application := False,
          queue := queue w @ [\<lparr>hwnd = 0, message = WM_QUIT, wParam = 0, lParam = 0\<rparr>],
          trace := trace w @
            [App_Shutdown, App_delete, Store_gApplication 0, C_DestroyWindow h,
             C_GetDC h, C_wglGetCurrentContext, C_glBindVertexArray 0,
             C_glDeleteVertexArrays (gVertexArrayObject w), Store_gVertexArrayObject 0,
             C_wglMakeCurrent_NULL, C_wglDeleteContext_current, C_ReleaseDC h,
             C_PostQuitMessage 0, C_DefWindowProc h WM_DESTROY 0 0,
             C_DefWindowProc h WM_CLOSE wp lp]\<rparr>) \<and>
   (gApplication w = 0 \<longrightarrow>
      WndProc h WM_CLOSE wp lp w =
        w\<lparr>trace := trace w @ [C_cout (''Already shut down gApplication!'' @ [CHR 0x0A]),
                              C_DefWindowProc h WM_CLOSE wp lp]\<rparr>)"
proof -
  have general: "gApplication (WndProc h WM_CLOSE wp lp w) = 0 \<and>
      take 4 (new_calls w (WndProc h WM_CLOSE wp lp w)) =
        [App_Shutdown, App_delete, Store_gApplication 0, C_DestroyWindow h] \<and>
      count_list (new_calls w (WndProc h WM_CLOSE wp lp w)) App_Shutdown = 1 \<and>
      count_list (new_calls w (WndProc h WM_CLOSE wp lp w)) App_delete = 1 \<and>
      count_list (new_calls w (WndProc h WM_CLOSE wp lp w)) (C_DestroyWindow h) = 1 \<and>
      last (new_calls w (WndProc h WM_CLOSE wp lp w)) = C_DefWindowProc h WM_CLOSE wp lp"
    if a: "gApplication w \<noteq> 0" "heap_Application w"
  proof (cases "gVertexArrayObject w = 0")
    case True
    show ?thesis
      unfolding close_alive_released [OF a True] by (simp add: new_calls_def)
  next
    case False
    show ?thesis
      unfolding close_alive_allocated [OF a False] by (simp add: new_calls_def)
  qed
  from general close_alive_allocated [of w h wp lp] close_dead [of w h wp lp]
  show ?thesis by blast
qed

theorem close_request_witness:
  "WndProc 7 WM_CLOSE 0 0 w_alive =
     \<lparr>gApplication = 0, gVertexArrayObject = 0, heap_Application = False, fault = False,
      queue = [\<lparr>hwnd = 0, message = WM_QUIT, wParam = 0, lParam = 0\<rparr>],
      trace = [App_Shutdown, App_delete, Store_gApplication 0, C_DestroyWindow 7,
               C_GetDC 7, C_wglGetCurrentContext, C_glBindVertexArray 0,
               C_glDeleteVertexArrays 1, Store_gVertexArrayObject 0,
               C_wglMakeCurrent_NULL, C_wglDeleteContext_current, C_ReleaseDC 7,
               C_PostQuitMessage 0, C_DefWindowProc 7 WM_DESTROY 0 0,
               C_DefWindowProc 7 WM_CLOSE 0 0]\<rparr> \<and>
   WndProc 7 WM_CLOSE 0 0 (WndProc 7 WM_CLOSE 0 0 w_alive) =
     \<lparr>gApplication = 0, gVertexArrayObject = 0, heap_Application = False, fault = False,
      queue = [\<lparr>hwnd = 0, message = WM_QUIT, wParam = 0, lParam = 0\<rparr>],
      trace = [App_Shutdown, App_delete, Store_gApplication 0, C_DestroyWindow 7,
               C_GetDC 7, C_wglGetCurrentContext, C_glBindVertexArray 0,
               C_glDeleteVertexArrays 1, Store_gVertexArrayObject 0,
               C_wglMakeCurrent_NULL, C_wglDeleteContext_current, C_ReleaseDC 7,
               C_PostQuitMessage 0, C_DefWindowProc 7 WM_DESTROY 0 0,
               C_DefWindowProc 7 WM_CLOSE 0 0,
               C_cout (''Already shut down gApplication!'' @ [CHR 0x0A]),
               C_DefWindowProc 7 WM_CLOSE 0 0]\<rparr>"
proof -
  have alive: "gApplication w_alive \<noteq> 0 \<and> heap_Application w_alive \<and>
      gVertexArrayObject w_alive \<noteq> 0"
    by (simp add: w_alive_def)
  have first: "WndProc 7 WM_CLOSE 0 0 w_alive =
     \<lparr>gApplication = 0, gVertexArrayObject = 0, heap_Application = False, fault = False,
      queue = [\<lparr>hwnd = 0, message = WM_QUIT, wParam = 0, lParam = 0\<rparr>],
      trace = [App_Shutdown, App_delete, Store_gApplication 0, C_DestroyWindow 7,
               C_GetDC 7, C_wglGetCurrentContext, C_glBindVertexArray 0,
               C_glDeleteVertexArrays 1, Store_gVertexArrayObject 0,
               C_wglMakeCurrent_NULL, C_wglDeleteContext_current, C_ReleaseDC 7,
               C_PostQuitMessage 0, C_DefWindowProc 7 WM_DESTROY 0 0,
               C_DefWindowProc 7 WM_CLOSE 0 0]\<rparr>"
    using close_request [of w_alive 7 0 0] alive by (simp add: w_alive_def)
  show ?thesis
    using close_request [of "WndProc 7 WM_CLOSE 0 0 w_alive" 7 0 0] first by simp
qed

text \<open>
  C3. A destroy notification that finds the vertex array allocated unbinds and deletes it,
  zeroes the handle, releases the current context and the device context and posts the
  quit notification. Whatever the state before, the handle is zero afterwards, so a second
  destroy notification takes the other branch: it repeats none of the teardown calls and
  posts nothing, it prints the diagnostic. Both branches leave through the common
  \<^verbatim>\<open>return DefWindowProc(...)\<close>.
\<close>

theorem destroy_notification:
  "(gVertexArrayObject w \<noteq> 0 \<longrightarrow>
      WndProc h WM_DESTROY wp lp w =
        w\<lparr>gVertexArrayObject := 0,
          queue := queue w @ [\<lparr>hwnd = 0, message = WM_QUIT, wParam = 0, lParam = 0\<rparr>],
          trace := trace w @
            [C_GetDC h, C_wglGetCurrentContext, C_glBindVertexArray 0,
             C_glDeleteVertexArrays (gVertexArrayObject w), Store_gVertexArrayObject 0,
             C_wglMakeCurrent_NULL, C_wglDeleteContext_current, C_ReleaseDC h,
             C_PostQuitMessage 0, C_DefWindowProc h WM_DESTROY wp lp]\<rparr>) \<and>
   gVertexArrayObject (WndProc h WM_DESTROY wp lp w) = 0 \<and>
   WndProc h WM_DESTROY wp' lp' (WndProc h WM_DESTROY wp lp w) =
     (WndProc h WM_DESTROY wp lp w)
       \<lparr>trace := trace (WndProc h WM_DESTROY wp lp w) @
          [C_cout (''Display multiple error msgs'' @ [CHR 0x0A]),
           C_DefWindowProc h WM_DESTROY wp' lp']\<rparr>"
proof -
  have zero: "gVertexArrayObject (WndProc h WM_DESTROY wp lp w) = 0"
    by (cases "gVertexArrayObject w = 0")
       (simp_all add: WndProc_def wm_defs on_WM_DESTROY_allocated on_WM_DESTROY_released
          emit_def)
  have second: "gVertexArrayObject v = 0 \<Longrightarrow>
      WndProc h WM_DESTROY wp' lp' v =
        v\<lparr>trace := trace v @ [C_cout (''Display multiple error msgs'' @ [CHR 0x0A]),
                              C_DefWindowProc h WM_DESTROY wp' lp']\<rparr>" for v
    by (simp add: WndProc_def wm_defs on_WM_DESTROY_released emit_def)
  have first: "gVertexArrayObject w \<noteq> 0 \<longrightarrow>
      WndProc h WM_DESTROY wp lp w =
        w\<lparr>gVertexArrayObject := 0,
          queue := queue w @ [\<lparr>hwnd = 0, message = WM_QUIT, wParam = 0, lParam = 0\<rparr>],
          trace := trace w @
            [C_GetDC h, C_wglGetCurrentContext, C_glBindVertexArray 0,
             C_glDeleteVertexArrays (gVertexArrayObject w), Store_gVertexArrayObject 0,
             C_wglMakeCurrent_NULL, C_wglDeleteContext_current, C_ReleaseDC h,
             C_PostQuitMessage 0, C_DefWindowProc h WM_DESTROY wp lp]\<rparr>"
    by (simp add: WndProc_def wm_defs on_WM_DESTROY_allocated emit_def)
  from first zero second [OF zero] show ?thesis by blast
qed

theorem destroy_notification_witness:
  "WndProc 7 WM_DESTROY 0 0 w_alive =
     \<lparr>gApplication = 1, gVertexArrayObject = 0, heap_Application = True, fault = False,
      queue = [\<lparr>hwnd = 0, message = WM_QUIT, wParam = 0, lParam = 0\<rparr>],
      trace = [C_GetDC 7, C_wglGetCurrentContext, C_glBindVertexArray 0,
               C_glDeleteVertexArrays 1, Store_gVertexArrayObject 0,
               C_wglMakeCurrent_NULL, C_wglDeleteContext_current, C_ReleaseDC 7,
               C_PostQuitMessage 0, C_DefWindowProc 7 WM_DESTROY 0 0]\<rparr> \<and>
   WndProc 7 WM_DESTROY 0 0 (WndProc 7 WM_DESTROY 0 0 w_alive) =
     \<lparr>gApplication = 1, gVertexArrayObject = 0, heap_Application = True, fault = False,
      queue = [\<lparr>hwnd = 0, message = WM_QUIT, wParam = 0, lParam = 0\<rparr>],
      trace = [C_GetDC 7, C_wglGetCurrentContext, C_glBindVertexArray 0,
               C_glDeleteVertexArrays 1, Store_gVertexArrayObject 0,
               C_wglMakeCurrent_NULL, C_wglDeleteContext_current, C_ReleaseDC 7,
               C_PostQuitMessage 0, C_DefWindowProc 7 WM_DESTROY 0 0,
               C_cout (''Display multiple error msgs'' @ [CHR 0x0A]),
               C_DefWindowProc 7 WM_DESTROY 0 0]\<rparr>"
proof -
  have allocated: "gVertexArrayObject w_alive \<noteq> 0"
    by (simp add: w_alive_def)
  have first: "WndProc 7 WM_DESTROY 0 0 w_alive =
     \<lparr>gApplication = 1, gVertexArrayObject = 0, heap_Application = True, fault = False,
      queue = [\<lparr>hwnd = 0, message = WM_QUIT, wParam = 0, lParam = 0\<rparr>],
      trace = [C_GetDC 7, C_wglGetCurrentContext, C_glBindVertexArray 0,
               C_glDeleteVertexArrays 1, Store_gVertexArrayObject 0,
               C_wglMakeCurrent_NULL, C_wglDeleteContext_current, C_ReleaseDC 7,
               C_PostQuitMessage 0, C_DefWindowProc 7 WM_DESTROY 0 0]\<rparr>"
    using destroy_notification [of w_alive 7 0 0 0 0] allocated by (simp add: w_alive_def)
  show ?thesis
    using destroy_notification [of w_alive 7 0 0 0 0] first by simp
qed

section \<open>The lifecycle of the Application\<close>

lemma calls_after_append_without:
  "App_Shutdown \<notin> set tr \<Longrightarrow> calls_after_Shutdown (tr @ cs) = calls_after_Shutdown cs"
  by (simp add: calls_after_Shutdown_def dropWhile_append)

lemma calls_after_append_with:
  "App_Shutdown \<in> set tr \<Longrightarrow> calls_after_Shutdown (tr @ cs) = calls_after_Shutdown tr @ cs"
proof -
  assume a: "App_Shutdown \<in> set tr"
  then have "dropWhile (\<lambda>c. c \<noteq> App_Shutdown) tr \<noteq> []" by (simp add: dropWhile_eq_Nil_conv) 
  with a show ?thesis
    by (auto simp add: calls_after_Shutdown_def dropWhile_append)
qed

lemma set_calls_after_subset: "set (calls_after_Shutdown cs) \<subseteq> set cs"
proof -
  have t: "set (tl ys) \<subseteq> set ys" for ys :: "call list" by (cases ys) auto
  have "set (dropWhile (\<lambda>c. c \<noteq> App_Shutdown) cs) \<subseteq> set cs"
    by (auto dest: set_dropWhileD)
  with t [of "dropWhile (\<lambda>c. c \<noteq> App_Shutdown) cs"] show ?thesis
    unfolding calls_after_Shutdown_def by blast
qed

lemma calls_after_single: "c \<noteq> App_Shutdown \<Longrightarrow> calls_after_Shutdown [c] = []"
  by (simp add: calls_after_Shutdown_def)

lemma calls_after_close:
  "calls_after_Shutdown [App_Shutdown, App_delete, Store_gApplication 0, C_DestroyWindow h]
   = [App_delete, Store_gApplication 0, C_DestroyWindow h]"
  by (simp add: calls_after_Shutdown_def)

lemma calls_after_Cons:
  "calls_after_Shutdown (c # cs) = (if c = App_Shutdown then cs else calls_after_Shutdown cs)"
  by (simp add: calls_after_Shutdown_def)

lemma count_Shutdown:
  "\<forall>c\<in>set (calls_after_Shutdown tr). c \<noteq> App_Shutdown \<Longrightarrow> count_list tr App_Shutdown \<le> 1"
proof (induction tr)
  case Nil
  show ?case by simp
next
  case (Cons c cs)
  show ?case
  proof (cases "c = App_Shutdown")
    case True
    with Cons.prems have "App_Shutdown \<notin> set cs"
      unfolding calls_after_Cons by auto
    then have "count_list cs App_Shutdown = 0" by simp
    with True show ?thesis by simp
  next
    case False
    with Cons.prems have "\<forall>c\<in>set (calls_after_Shutdown cs). c \<noteq> App_Shutdown"
      unfolding calls_after_Cons by simp
    from Cons.IH [OF this] False show ?thesis by simp
  qed
qed

text \<open>Every step of the host keeps the invariant.\<close>

lemma guarded_emits:
  assumes g: "guarded w" and cs: "\<forall>c\<in>set cs. c \<noteq> App_Shutdown \<and> \<not> is_frame_call c"
  shows "guarded (w\<lparr>trace := trace w @ cs\<rparr>)"
proof -
  from cs have nS: "App_Shutdown \<notin> set cs" by blast
  have after: "\<forall>c\<in>set (calls_after_Shutdown (trace w @ cs)). c \<noteq> App_Shutdown \<and> \<not> is_frame_call c"
  proof (cases "App_Shutdown \<in> set (trace w)")
    case True
    from g have "\<forall>c\<in>set (calls_after_Shutdown (trace w)). c \<noteq> App_Shutdown \<and> \<not> is_frame_call c"
      by (simp add: guarded_def)
    with cs show ?thesis
      by (simp add: calls_after_append_with [OF True] ball_Un)
  next
    case False
    from cs set_calls_after_subset [of cs] show ?thesis
      unfolding calls_after_append_without [OF False] by blast
  qed
  from g nS after show ?thesis
    by (simp add: guarded_def)
qed

lemma guarded_emit: "guarded w \<Longrightarrow> c \<noteq> App_Shutdown \<Longrightarrow> \<not> is_frame_call c \<Longrightarrow> guarded (emit c w)"
  using guarded_emits [of w "[c]"] by (simp add: emit_def)

lemma guarded_queue [simp]: "guarded (w\<lparr>queue := q\<rparr>) = guarded w"
  by (simp add: guarded_def)

lemma guarded_gVertexArrayObject [simp]: "guarded (w\<lparr>gVertexArrayObject := v\<rparr>) = guarded w"
  by (simp add: guarded_def)

lemma guarded_invoke:
  assumes g: "guarded w" and a: "gApplication w \<noteq> 0" and c: "c \<noteq> App_Shutdown"
  shows "guarded (invoke c w)"
proof -
  from g a have h: "heap_Application w" and n: "App_Shutdown \<notin> set (trace w)" and f: "\<not> fault w"
    by (simp_all add: guarded_def)
  from a h have eq: "invoke c w = w\<lparr>trace := trace w @ [c]\<rparr>"
    by (simp add: invoke_def emit_def)
  show ?thesis
    unfolding eq using h n f c
    by (simp add: guarded_def calls_after_append_without calls_after_single)
qed

lemma gApplication_invoke [simp]: "gApplication (invoke c w) = gApplication w"
  by (simp add: invoke_def emit_def)

lemma gApplication_emit [simp]: "gApplication (emit c w) = gApplication w"
  by (simp add: emit_def)

lemma guarded_on_WM_DESTROY: "guarded w \<Longrightarrow> guarded (on_WM_DESTROY h w)"
  by (simp add: on_WM_DESTROY_def PostQuitMessage_def store_gVertexArrayObject_def guarded_emit)

lemma guarded_on_WM_CLOSE: "guarded w \<Longrightarrow> guarded (on_WM_CLOSE h w)"
proof (cases "gApplication w = 0")
  case True
  assume "guarded w"
  then show ?thesis using True by (simp add: on_WM_CLOSE_def guarded_emit)
next
  case False
  assume g: "guarded w"
  with False have h: "heap_Application w" and n: "App_Shutdown \<notin> set (trace w)" and f: "\<not> fault w"
    by (simp_all add: guarded_def)
  have "guarded (w\<lparr>gApplication := 0, heap_Application := False,
       trace := trace w @ [App_Shutdown, App_delete, Store_gApplication 0, C_DestroyWindow h]\<rparr>)"
    using f by (simp add: guarded_def calls_after_append_without [OF n] calls_after_close)
  then show ?thesis
    unfolding on_WM_CLOSE_alive [OF False h]
    by (intro guarded_emit guarded_on_WM_DESTROY) simp_all
qed

lemma guarded_WndProc: "guarded w \<Longrightarrow> guarded (WndProc h m wp lp w)"
  by (simp add: WndProc_def guarded_emit guarded_on_WM_CLOSE guarded_on_WM_DESTROY)

lemma guarded_process_window_events:
  "guarded w \<Longrightarrow> guarded (pass_world (process_window_events l w))"
  by (simp add: process_window_events_def PeekMessage_def DispatchMessage_def
      TranslateMessage_def guarded_WndProc guarded_emit split: list.split)

lemma guarded_update_application:
  "guarded w \<Longrightarrow> guarded (snd (update_application t l w))"
  by (simp add: update_application_def Let_def guarded_invoke guarded_emit)

lemma guarded_render_application:
  "guarded w \<Longrightarrow> guarded (snd (render_application rc l w))"
  by (simp add: render_application_def Let_def guarded_invoke guarded_emit)

lemma guarded_present: "guarded w \<Longrightarrow> guarded (present l w)"
  by (simp add: present_def Let_def guarded_emit)

lemma guarded_iteration: "guarded w \<Longrightarrow> guarded (pass_world (iteration i l w))"
proof -
  assume g: "guarded w"
  then have g0: "guarded (w\<lparr>queue := queue w @ arrivals i\<rparr>)" by simp
  show ?thesis
  proof (cases "process_window_events l (w\<lparr>queue := queue w @ arrivals i\<rparr>)")
    case (Break l1 w1)
    with guarded_process_window_events [OF g0, of l] show ?thesis
      by (simp add: iteration_def)
  next
    case (Next_pass l1 w1)
    with guarded_process_window_events [OF g0, of l] have g1: "guarded w1" by simp
    obtain l2 w2 where u: "update_application (tick i) l1 w1 = (l2, w2)" by (cases "update_application (tick i) l1 w1")
    with guarded_update_application [OF g1, of "tick i" l1] have g2: "guarded w2" by simp
    obtain l3 w3 where r: "render_application (clientRect i) l2 w2 = (l3, w3)" by (cases "render_application (clientRect i) l2 w2")
    with guarded_render_application [OF g2, of "clientRect i" l2] have g3: "guarded w3" by simp
    from Next_pass u r guarded_present [OF g3, of l3] show ?thesis
      by (simp add: iteration_def)
  qed
qed

lemma guarded_game_loop: "guarded w \<Longrightarrow> guarded (loop_world (game_loop ins l w))"
proof (induction ins arbitrary: l w)
  case Nil
  then show ?case by simp
next
  case (Cons i ins)
  from guarded_iteration [OF Cons.prems, of i l] Cons.IH show ?case
    by (cases "iteration i l w") simp_all
qed

lemma guarded_startup: "guarded (snd (startup p))"
proof -
  have 0: "guarded (store_gApplication (Suc 0) (emit App_new (world0\<lparr>heap_Application := True\<rparr>)))"
    by (simp add: guarded_def store_gApplication_def emit_def world0_def calls_after_Shutdown_def)
  have e: "guarded w \<Longrightarrow> \<forall>c\<in>set cs. c \<noteq> App_Shutdown \<and> \<not> is_frame_call c \<Longrightarrow> guarded (emits cs w)" for cs w
    by (simp add: emits_def guarded_emits)
  have ga: "gApplication (emits cs w) = gApplication w" for cs w by (simp add: emits_def)
  have v: "guarded w \<Longrightarrow> guarded (snd (enable_vsynch p w))" for w
    by (simp add: enable_vsynch_def Let_def e guarded_emit)
  have gv: "gApplication (snd (enable_vsynch p w)) = gApplication w" for w
    by (simp add: enable_vsynch_def Let_def ga)
  have g1: "gApplication (store_gApplication (Suc 0) w) = Suc 0" for w by (simp add: store_gApplication_def)
  show ?thesis
    unfolding startup_def Let_def
    apply (simp only: split_beta snd_conv)
    apply (rule guarded_emit)
      apply (rule guarded_invoke)
    apply (simp_all add: e v guarded_emit create_window_def store_gVertexArrayObject_def ga gv g1 0)
    done
qed

text \<open>So the pointer is null or valid in every state the loop reaches.\<close>

lemma guarded_pointer_valid: "guarded w \<Longrightarrow> pointer_valid w"
  by (simp add: guarded_def pointer_valid_def)

lemma pointer_valid_reachable:
  "pointer_valid (loop_world (game_loop ins (fst (startup p)) (snd (startup p))))"
  by (rule guarded_pointer_valid) (rule guarded_game_loop [OF guarded_startup])

lemma after_loop_guarded:
  assumes g: "guarded w"
  shows "\<not> fault (after_loop w)"
    and "\<forall>c\<in>set (calls_after_Shutdown (trace (after_loop w))). c \<noteq> App_Shutdown \<and> \<not> is_frame_call c"
proof -
  show "\<not> fault (after_loop w)"
    using g by (simp add: after_loop_def delete_gApplication_def emit_def guarded_def)
  show "\<forall>c\<in>set (calls_after_Shutdown (trace (after_loop w))). c \<noteq> App_Shutdown \<and> \<not> is_frame_call c"
  proof (cases "gApplication w = 0")
    case True
    then have "after_loop w = w" by (simp add: after_loop_def)
    then show ?thesis using g unfolding guarded_def by simp
  next
    case False
    with g have "heap_Application w" by (simp add: guarded_def)
    with False have e: "trace (after_loop w) = trace w @
       [C_cout (''Expected application to be null on exit '' @ [CHR 0x0A]), App_delete]"
      by (simp add: after_loop_def delete_gApplication_def emit_def)
    have "guarded (w\<lparr>trace := trace w @
       [C_cout (''Expected application to be null on exit '' @ [CHR 0x0A]), App_delete]\<rparr>)"
      by (rule guarded_emits [OF g]) simp
    then show ?thesis unfolding e guarded_def by simp
  qed
qed

section \<open>One pass of the loop\<close>

text \<open>The poll, with the three platform calls unfolded.\<close>

lemma pump_part:
  "process_window_events l w =
     (case queue w of
        [] \<Rightarrow> Next_pass l
               (WndProc (hwnd (msg l)) (message (msg l)) (wParam (msg l)) (lParam (msg l))
                 (w\<lparr>trace := trace w @ [C_PeekMessage None, C_TranslateMessage (msg l),
                                         C_DispatchMessage (msg l)]\<rparr>))
      | m # ms \<Rightarrow>
          if message m = WM_QUIT
          then Break (l\<lparr>msg := m\<rparr>) (w\<lparr>queue := ms, trace := trace w @ [C_PeekMessage (Some m)]\<rparr>)
          else Next_pass (l\<lparr>msg := m\<rparr>)
                 (WndProc (hwnd m) (message m) (wParam m) (lParam m)
                   (w\<lparr>queue := ms,
                      trace := trace w @ [C_PeekMessage (Some m), C_TranslateMessage m,
                                          C_DispatchMessage m]\<rparr>)))"
  by (simp add: process_window_events_def PeekMessage_def TranslateMessage_def
      DispatchMessage_def emit_def split: list.split)

lemma iteration_Break_iff:
  "(\<exists>l' w'. iteration i l w = Break l' w') \<longleftrightarrow>
     (\<exists>m ms. queue w @ arrivals i = m # ms \<and> message m = WM_QUIT)"
  by (cases "queue w @ arrivals i")
     (auto simp add: iteration_def pump_part split: list.splits prod.splits)

lemma iteration_quit:
  "queue w @ arrivals i = m # ms \<Longrightarrow> message m = WM_QUIT \<Longrightarrow>
   iteration i l w =
     Break (l\<lparr>msg := m\<rparr>) (w\<lparr>queue := ms, trace := trace w @ [C_PeekMessage (Some m)]\<rparr>)"
  by (simp add: iteration_def pump_part)

lemma msg_after_pass:
  "iteration i l w = Next_pass l' w' \<Longrightarrow>
   msg l' = (case queue w @ arrivals i of [] \<Rightarrow> msg l | m # ms \<Rightarrow> m)"
  by (auto simp add: iteration_def pump_part update_application_def render_application_def
      Let_def split: list.splits if_splits)

text \<open>
  The pass that finds the quit message on a live Application: the loop is left with the
  \<^verbatim>\<open>PeekMessage\<close> call as its only call, without \<^verbatim>\<open>Update\<close>, \<^verbatim>\<open>Render\<close> or
  \<^verbatim>\<open>SwapBuffers\<close>.
\<close>

theorem quit_pass_does_no_frame_work:
  "game_loop [\<lparr>arrivals = [m_quit], tick = 1016, clientRect = rc0\<rparr>] l_alive w_alive =
     Exited (l_alive\<lparr>msg := m_quit\<rparr>) (w_alive\<lparr>trace := [C_PeekMessage (Some m_quit)]\<rparr>)"
  by (simp add: iteration_def pump_part w_alive_def l_alive_def m_quit_def)

text \<open>
  C2, as the code has it. The pass whose \<^verbatim>\<open>PeekMessage\<close> retrieves the quit message
  leaves the loop at once: the message goes to the buffer and the pass makes no other
  call, so it neither dispatches nor updates, renders or presents. A pass leaves the loop
  in this case only; every other pass runs to its end.
\<close>

theorem quit_leaves_at_once:
  "(queue w @ arrivals i = m # ms \<and> message m = WM_QUIT \<longrightarrow>
      iteration i l w =
        Break (l\<lparr>msg := m\<rparr>) (w\<lparr>queue := ms, trace := trace w @ [C_PeekMessage (Some m)]\<rparr>) \<and>
      game_loop (i # ins) l w =
        Exited (l\<lparr>msg := m\<rparr>) (w\<lparr>queue := ms, trace := trace w @ [C_PeekMessage (Some m)]\<rparr>)) \<and>
   ((\<exists>l' w'. iteration i l w = Break l' w') \<longleftrightarrow>
      (\<exists>m ms. queue w @ arrivals i = m # ms \<and> message m = WM_QUIT))"
  using iteration_quit [of w i m ms l] iteration_Break_iff [of i l w] by simp

theorem quit_leaves_at_once_witness:
  "iteration \<lparr>arrivals = [m_quit], tick = 1016, clientRect = rc0\<rparr> l_alive w_alive =
     Break (l_alive\<lparr>msg := m_quit\<rparr>) (w_alive\<lparr>trace := [C_PeekMessage (Some m_quit)]\<rparr>)"
  using quit_leaves_at_once [of w_alive "\<lparr>arrivals = [m_quit], tick = 1016, clientRect = rc0\<rparr>"
      m_quit "[]" l_alive "[]"]
  by (simp add: w_alive_def m_quit_def)

text \<open>What the window procedure and the frame part of a pass add to the trace.\<close>

lemma WndProc_appends:
  "\<exists>hs. trace (WndProc h m wp lp w) = trace w @ hs \<and> (\<forall>c\<in>set hs. \<not> is_loop_call c)"
  by (simp add: WndProc_def on_WM_CLOSE_def DestroyWindow_def on_WM_DESTROY_def PostQuitMessage_def
      store_gVertexArrayObject_def store_gApplication_def delete_gApplication_def
      invoke_def emit_def)

lemma pointer_valid_WndProc: "pointer_valid w \<Longrightarrow> pointer_valid (WndProc h m wp lp w)"
  by (simp add: pointer_valid_def WndProc_def on_WM_CLOSE_def DestroyWindow_def on_WM_DESTROY_def PostQuitMessage_def
      store_gVertexArrayObject_def store_gApplication_def delete_gApplication_def
      invoke_def emit_def)

lemma frame_part:
  assumes pv: "pointer_valid w1"
    and u: "update_application (tick i) l1 w1 = (l2, w2)"
    and r: "render_application (clientRect i) l2 w2 = (l3, w3)"
  shows "trace (present l3 w3) =
           trace w1 @ [C_GetTickCount (tick i)] @
             (if gApplication w1 \<noteq> 0 then frame_calls i l1 (gVertexArrayObject w1) else [])"
    and "lastTick l3 = tick i" and "msg l3 = msg l1"
    and "gApplication (present l3 w3) = gApplication w1"
    and "queue (present l3 w3) = queue w1"
    and "pointer_valid (present l3 w3)"
    and "gApplication w1 \<noteq> 0 \<Longrightarrow> clientWidth l3 = right (clientRect i) - left (clientRect i)
           \<and> clientHeight l3 = bottom (clientRect i) - top (clientRect i)"
  using pv u r
  by (auto simp add: update_application_def render_application_def present_def Let_def
      pointer_valid_def invoke_def emit_def frame_calls_def split: if_splits)

lemma gVertexArrayObject_frame:
  "update_application t l1 w1 = (l2, w2) \<Longrightarrow> render_application rc l2 w2 = (l3, w3) \<Longrightarrow>
   gVertexArrayObject (present l3 w3) = gVertexArrayObject w1 \<and> main_hdc l3 = main_hdc l1 \<and> vsynch l3 = vsynch l1"
  by (auto simp add: update_application_def render_application_def present_def Let_def
      invoke_def emit_def split: if_splits)

lemma update_args_append [simp]: "update_args (xs @ ys) = update_args xs @ update_args ys"
  by (induction xs rule: update_args.induct) simp_all

lemma render_args_append [simp]: "render_args (xs @ ys) = render_args xs @ render_args ys"
  by (induction xs rule: render_args.induct) simp_all

lemma update_args_handler: "\<forall>c\<in>set hs. \<not> is_loop_call c \<Longrightarrow> update_args hs = []"
  by (induction hs rule: update_args.induct) simp_all

lemma render_args_handler: "\<forall>c\<in>set hs. \<not> is_loop_call c \<Longrightarrow> render_args hs = []"
  by (induction hs rule: render_args.induct) simp_all

lemma filter_pump_handler: "\<forall>c\<in>set hs. \<not> is_loop_call c \<Longrightarrow> filter is_pump_call hs = []"
proof -
  have "is_pump_call c \<Longrightarrow> is_loop_call c" for c by (cases c) simp_all
  then show "\<forall>c\<in>set hs. \<not> is_loop_call c \<Longrightarrow> filter is_pump_call hs = []"
    by (auto simp add: filter_empty_conv)
qed

lemma update_args_frame_calls:
  "update_args (frame_calls i l vao) = [FMul (FOfDword (tick i - lastTick l)) (FLit 0.001)]"
  "render_args (frame_calls i l vao) =
     [FDiv (FOfInt (right (clientRect i) - left (clientRect i)))
           (FOfInt (bottom (clientRect i) - top (clientRect i)))]"
  "C_GetClientRect (clientRect i) \<in> set (frame_calls i l vao)"
  by (simp_all add: frame_calls_def)

text \<open>
  A pass that is not the last one, call by call: the poll, the dispatch, what the window
  procedure does, the tick, and the frame when the Application is alive behind the
  dispatch.
\<close>

lemma iteration_Next_pass:
  assumes pv: "pointer_valid w" and it: "iteration i l w = Next_pass l' w'"
  shows "\<exists>hs. (\<forall>c\<in>set hs. \<not> is_loop_call c) \<and>
           trace w' = trace w @
             [C_PeekMessage (peeked (queue w @ arrivals i)), C_TranslateMessage (msg l'),
              C_DispatchMessage (msg l')] @ hs @ [C_GetTickCount (tick i)] @
             (if gApplication w' \<noteq> 0 then frame_calls i l (gVertexArrayObject w') else [])"
    and "msg l' = (case queue w @ arrivals i of [] \<Rightarrow> msg l | m # ms \<Rightarrow> m)"
    and "lastTick l' = tick i"
    and "pointer_valid w'"
    and "gApplication w' \<noteq> 0 \<Longrightarrow>
           clientWidth l' = right (clientRect i) - left (clientRect i) \<and>
           clientHeight l' = bottom (clientRect i) - top (clientRect i)"
proof -
  let ?w0 = "w\<lparr>queue := queue w @ arrivals i\<rparr>"
  from it obtain l1 w1 where p: "process_window_events l ?w0 = Next_pass l1 w1"
    by (cases "process_window_events l ?w0") (simp_all add: iteration_def)
  obtain l2 w2 where u: "update_application (tick i) l1 w1 = (l2, w2)"
    by (cases "update_application (tick i) l1 w1")
  obtain l3 w3 where r: "render_application (clientRect i) l2 w2 = (l3, w3)"
    by (cases "render_application (clientRect i) l2 w2")
  have "iteration i l w = Next_pass l3 (present l3 w3)"
    by (simp add: iteration_def p u r)
  with it have "Next_pass l' w' = Next_pass l3 (present l3 w3)"
    by (rule trans [OF sym])
  then have l': "l' = l3" and w': "w' = present l3 w3"
    by (rule pass.inject(2) [THEN iffD1, THEN conjunct1], rule pass.inject(2) [THEN iffD1, THEN conjunct2])
  have pv0: "pointer_valid ?w0" using pv by (simp add: pointer_valid_def)
  define b where "b = (case queue w @ arrivals i of [] \<Rightarrow> msg l | m # ms \<Rightarrow> m)"
  define v where "v = ?w0\<lparr>queue := tl (queue w @ arrivals i),
      trace := trace w @ [C_PeekMessage (peeked (queue w @ arrivals i)), C_TranslateMessage b,
                          C_DispatchMessage b]\<rparr>"
  from p have l1: "l1 = l\<lparr>msg := b\<rparr>"
    and w1: "w1 = WndProc (hwnd b) (message b) (wParam b) (lParam b) v"
    by (auto simp add: pump_part b_def v_def peeked_def split: list.splits if_splits)
  have pvv: "pointer_valid v" using pv by (simp add: v_def pointer_valid_def)
  from WndProc_appends [of "hwnd b" "message b" "wParam b" "lParam b" v]
  obtain hs where hs: "trace w1 = trace v @ hs" "\<forall>c\<in>set hs. \<not> is_loop_call c"
    unfolding w1 by blast
  have pv1: "pointer_valid w1" unfolding w1 by (rule pointer_valid_WndProc [OF pvv])
  note f = frame_part [OF pv1 u r] gVertexArrayObject_frame [OF u r]
  show "msg l' = (case queue w @ arrivals i of [] \<Rightarrow> msg l | m # ms \<Rightarrow> m)"
    using f(3) by (simp add: l' l1 b_def)
  show "lastTick l' = tick i" using f(2) by (simp add: l')
  show "pointer_valid w'" using f(6) by (simp add: w')
  show "gApplication w' \<noteq> 0 \<Longrightarrow>
           clientWidth l' = right (clientRect i) - left (clientRect i) \<and>
           clientHeight l' = bottom (clientRect i) - top (clientRect i)"
    using f(4) f(7) by (simp add: w' l')
  have fc: "frame_calls i l1 = frame_calls i l"
    by (simp add: frame_calls_def l1 fun_eq_iff)
  have mb: "msg l' = b" using f(3) by (simp add: l' l1)
  have "trace w' = trace w @
             [C_PeekMessage (peeked (queue w @ arrivals i)), C_TranslateMessage (msg l'),
              C_DispatchMessage (msg l')] @ hs @ [C_GetTickCount (tick i)] @
             (if gApplication w' \<noteq> 0 then frame_calls i l (gVertexArrayObject w') else [])"
    using f(1) f(4) f(8) hs(1) by (simp add: w' mb fc v_def)
  with hs(2) show "\<exists>hs. (\<forall>c\<in>set hs. \<not> is_loop_call c) \<and>
           trace w' = trace w @
             [C_PeekMessage (peeked (queue w @ arrivals i)), C_TranslateMessage (msg l'),
              C_DispatchMessage (msg l')] @ hs @ [C_GetTickCount (tick i)] @
             (if gApplication w' \<noteq> 0 then frame_calls i l (gVertexArrayObject w') else [])"
    by blast
qed

text \<open>The queue and the calls of the poll, for every pass.\<close>

lemma queue_WndProc:
  "\<exists>posted. queue (WndProc h m wp lp w) = queue w @ posted \<and>
     (posted = [] \<or> posted = [\<lparr>hwnd = 0, message = WM_QUIT, wParam = 0, lParam = 0\<rparr>])"
  by (simp add: WndProc_def on_WM_CLOSE_def DestroyWindow_def on_WM_DESTROY_def PostQuitMessage_def
      store_gVertexArrayObject_def store_gApplication_def delete_gApplication_def
      invoke_def emit_def)

lemma frame_keeps_queue:
  "update_application t l1 w1 = (l2, w2) \<Longrightarrow> render_application rc l2 w2 = (l3, w3) \<Longrightarrow>
   queue (present l3 w3) = queue w1 \<and>
   (\<exists>fs. trace (present l3 w3) = trace w1 @ fs \<and> filter is_pump_call fs = [])"
  by (auto simp add: update_application_def render_application_def present_def Let_def
      invoke_def emit_def split: if_splits)

lemma pump_calls_handler:
  "\<exists>hs. trace (WndProc h m wp lp w) = trace w @ hs \<and> filter is_pump_call hs = []"
  using WndProc_appends [of h m wp lp w] filter_pump_handler by blast

lemma iteration_pump:
  "(\<exists>posted. queue (pass_world (iteration i l w)) = tl (queue w @ arrivals i) @ posted \<and>
      (posted = [] \<or> posted = [\<lparr>hwnd = 0, message = WM_QUIT, wParam = 0, lParam = 0\<rparr>])) \<and>
   filter is_pump_call (new_calls w (pass_world (iteration i l w))) =
     (case queue w @ arrivals i of
        [] \<Rightarrow> [C_PeekMessage None, C_TranslateMessage (msg l), C_DispatchMessage (msg l)]
      | m # ms \<Rightarrow>
          if message m = WM_QUIT then [C_PeekMessage (Some m)]
          else [C_PeekMessage (Some m), C_TranslateMessage m, C_DispatchMessage m])"
proof (cases "\<exists>m ms. queue w @ arrivals i = m # ms \<and> message m = WM_QUIT")
  case True
  then obtain m ms where q: "queue w @ arrivals i = m # ms" "message m = WM_QUIT" by blast
  from iteration_quit [OF q, of l] q show ?thesis
    by (simp add: new_calls_def)
next
  case False
  define b where "b = (case queue w @ arrivals i of [] \<Rightarrow> msg l | m # ms \<Rightarrow> m)"
  define v where "v = w\<lparr>queue := tl (queue w @ arrivals i),
      trace := trace w @ [C_PeekMessage (peeked (queue w @ arrivals i)), C_TranslateMessage b,
                          C_DispatchMessage b]\<rparr>"
  define w1 where "w1 = WndProc (hwnd b) (message b) (wParam b) (lParam b) v"
  from False have p: "process_window_events l (w\<lparr>queue := queue w @ arrivals i\<rparr>) =
      Next_pass (l\<lparr>msg := b\<rparr>) w1"
    by (auto simp add: pump_part b_def v_def w1_def peeked_def split: list.splits)
  obtain l2 w2 where u: "update_application (tick i) (l\<lparr>msg := b\<rparr>) w1 = (l2, w2)"
    by (cases "update_application (tick i) (l\<lparr>msg := b\<rparr>) w1")
  obtain l3 w3 where r: "render_application (clientRect i) l2 w2 = (l3, w3)"
    by (cases "render_application (clientRect i) l2 w2")
  have it: "iteration i l w = Next_pass l3 (present l3 w3)"
    by (simp add: iteration_def p u r)
  from frame_keeps_queue [OF u r] obtain fs where
    f: "queue (present l3 w3) = queue w1" "trace (present l3 w3) = trace w1 @ fs"
       "filter is_pump_call fs = []" by blast
  from pump_calls_handler [of "hwnd b" "message b" "wParam b" "lParam b" v] obtain hs where
    h: "trace w1 = trace v @ hs" "filter is_pump_call hs = []" unfolding w1_def by blast
  from queue_WndProc [of "hwnd b" "message b" "wParam b" "lParam b" v] obtain posted where
    po: "queue w1 = queue v @ posted"
      "posted = [] \<or> posted = [\<lparr>hwnd = 0, message = WM_QUIT, wParam = 0, lParam = 0\<rparr>]"
    unfolding w1_def by blast
  have 1: "\<exists>posted. queue (pass_world (iteration i l w)) = tl (queue w @ arrivals i) @ posted \<and>
      (posted = [] \<or> posted = [\<lparr>hwnd = 0, message = WM_QUIT, wParam = 0, lParam = 0\<rparr>])"
    using po f(1) by (auto simp add: it v_def)
  have "new_calls w (pass_world (iteration i l w)) =
      [C_PeekMessage (peeked (queue w @ arrivals i)), C_TranslateMessage b, C_DispatchMessage b]
      @ hs @ fs"
    by (simp add: it new_calls_def f(2) h(1) v_def)
  then have 2: "filter is_pump_call (new_calls w (pass_world (iteration i l w))) =
      [C_PeekMessage (peeked (queue w @ arrivals i)), C_TranslateMessage b, C_DispatchMessage b]"
    by (simp add: f(3) h(2))
  from False 1 2 show ?thesis
    by (auto simp add: b_def peeked_def split: list.splits)
qed

text \<open>
  Two key messages pending on a live Application: the pass removes and dispatches the
  first one only. The second is still in the queue when the pass ends, after the frame
  has been updated and rendered.
\<close>

theorem pump_leaves_second_message:
  "queue (pass_world (iteration i_keys l_alive w_alive)) = [m_keyup] \<and>
   filter is_pump_call (trace (pass_world (iteration i_keys l_alive w_alive))) =
     [C_PeekMessage (Some m_keydown), C_TranslateMessage m_keydown,
      C_DispatchMessage m_keydown] \<and>
   render_args (trace (pass_world (iteration i_keys l_alive w_alive))) =
     [FDiv (FOfInt 800) (FOfInt 600)]"
  by (simp add: iteration_def pump_part w_alive_def l_alive_def i_keys_def msg_defs wm_defs
      WndProc_def update_application_def render_application_def present_def Let_def
      invoke_def emit_def)

text \<open>
  C6, as the code has it. A pass makes one \<^verbatim>\<open>PeekMessage\<close> call, which never waits.
  With messages pending it removes one of them, and the others stay in the queue in
  their order, followed by the quit message if the window procedure posted one; unless
  the message removed is the quit message, it is translated and dispatched to the window
  procedure once.
\<close>

theorem pump_takes_one_message:
  "(\<exists>pk. filter is_peek_call (new_calls w (pass_world (iteration i l w))) =
           [C_PeekMessage pk] \<and>
         (pk = None) = (queue w @ arrivals i = [])) \<and>
   (queue w @ arrivals i \<noteq> [] \<longrightarrow>
      (\<exists>m before behind posted.
         queue w @ arrivals i = before @ m # behind \<and>
         queue (pass_world (iteration i l w)) = before @ behind @ posted \<and>
         (posted = [] \<or> posted = [\<lparr>hwnd = 0, message = WM_QUIT, wParam = 0, lParam = 0\<rparr>]) \<and>
         filter is_pump_call (new_calls w (pass_world (iteration i l w))) =
           (if message m = WM_QUIT then [C_PeekMessage (Some m)]
            else [C_PeekMessage (Some m), C_TranslateMessage m, C_DispatchMessage m])))"
proof -
  have pp: "filter is_peek_call cs = filter is_peek_call (filter is_pump_call cs)" for cs
  proof -
    have "is_peek_call c \<Longrightarrow> is_pump_call c" for c by (cases c) simp_all
    then have "(is_pump_call c \<and> is_peek_call c) = is_peek_call c" for c by blast
    then show ?thesis by simp
  qed
  from iteration_pump [of i l w] obtain posted where
    q: "queue (pass_world (iteration i l w)) = tl (queue w @ arrivals i) @ posted"
       "posted = [] \<or> posted = [\<lparr>hwnd = 0, message = WM_QUIT, wParam = 0, lParam = 0\<rparr>]"
    and f: "filter is_pump_call (new_calls w (pass_world (iteration i l w))) =
     (case queue w @ arrivals i of
        [] \<Rightarrow> [C_PeekMessage None, C_TranslateMessage (msg l), C_DispatchMessage (msg l)]
      | m # ms \<Rightarrow>
          if message m = WM_QUIT then [C_PeekMessage (Some m)]
          else [C_PeekMessage (Some m), C_TranslateMessage m, C_DispatchMessage m])"
    by blast
  have 1: "\<exists>pk. filter is_peek_call (new_calls w (pass_world (iteration i l w))) =
           [C_PeekMessage pk] \<and>
         (pk = None) = (queue w @ arrivals i = [])"
  proof (cases "queue w @ arrivals i")
    case Nil
    with f have "filter is_peek_call (filter is_pump_call
        (new_calls w (pass_world (iteration i l w)))) = [C_PeekMessage None]"
      by simp
    with Nil show ?thesis unfolding pp [symmetric] by simp
  next
    case (Cons m ms)
    with f have "filter is_peek_call (filter is_pump_call
        (new_calls w (pass_world (iteration i l w)))) = [C_PeekMessage (Some m)]"
      by simp
    with Cons show ?thesis unfolding pp [symmetric] by simp
  qed
  have 2: "\<exists>m before behind posted.
         queue w @ arrivals i = before @ m # behind \<and>
         queue (pass_world (iteration i l w)) = before @ behind @ posted \<and>
         (posted = [] \<or> posted = [\<lparr>hwnd = 0, message = WM_QUIT, wParam = 0, lParam = 0\<rparr>]) \<and>
         filter is_pump_call (new_calls w (pass_world (iteration i l w))) =
           (if message m = WM_QUIT then [C_PeekMessage (Some m)]
            else [C_PeekMessage (Some m), C_TranslateMessage m, C_DispatchMessage m])"
    if ne: "queue w @ arrivals i \<noteq> []"
  proof -
    from ne obtain m ms where c: "queue w @ arrivals i = m # ms"
      by (cases "queue w @ arrivals i") auto
    have a: "queue w @ arrivals i = [] @ m # ms" by (simp add: c)
    have b: "queue (pass_world (iteration i l w)) = [] @ ms @ posted"
      using q(1) by (simp add: c)
    have d: "filter is_pump_call (new_calls w (pass_world (iteration i l w))) =
           (if message m = WM_QUIT then [C_PeekMessage (Some m)]
            else [C_PeekMessage (Some m), C_TranslateMessage m, C_DispatchMessage m])"
      using f by (simp add: c)
    from a b q(2) d show ?thesis by blast
  qed
  from 1 2 show ?thesis by blast
qed

theorem pump_takes_one_message_witness:
  "queue w_alive @ arrivals i_keys = [m_keydown, m_keyup] \<and>
   (\<exists>m before behind posted.
      [m_keydown, m_keyup] = before @ m # behind \<and>
      queue (pass_world (iteration i_keys l_alive w_alive)) = before @ behind @ posted \<and>
      (posted = [] \<or> posted = [\<lparr>hwnd = 0, message = WM_QUIT, wParam = 0, lParam = 0\<rparr>]) \<and>
      filter is_pump_call (new_calls w_alive (pass_world (iteration i_keys l_alive w_alive))) =
        (if message m = WM_QUIT then [C_PeekMessage (Some m)]
         else [C_PeekMessage (Some m), C_TranslateMessage m, C_DispatchMessage m]))"
proof -
  have q: "queue w_alive @ arrivals i_keys = [m_keydown, m_keyup]"
    by (simp add: w_alive_def i_keys_def)
  from pump_takes_one_message [of w_alive i_keys l_alive] q show ?thesis by simp
qed

text \<open>
  C8. In a pass that runs to its end, \<open>lastTick\<close> becomes the tick just read, and
  \<^verbatim>\<open>Update\<close> is called (once, if the Application is alive behind the dispatch) with
  \<^verbatim>\<open>(thisTick - lastTick) * 0.001f\<close>: the difference is taken on 32-bit unsigned words, so
  it wraps modulo \<open>2 ^ 32\<close>, and nothing clamps the product. The value is that of the
  expression over the reals. The premise on the pointer holds in every state the loop
  reaches (\<open>pointer_valid_reachable\<close>).
\<close>

theorem delta_time:
  "pointer_valid w \<and> iteration i l w = Next_pass l' w' \<longrightarrow>
     lastTick l' = tick i \<and>
     update_args (new_calls w w') =
       (if gApplication w' \<noteq> 0
        then [FMul (FOfDword (tick i - lastTick l)) (FLit 0.001)] else []) \<and>
     exact (FMul (FOfDword (tick i - lastTick l)) (FLit 0.001)) =
       Some (real (if unat (lastTick l) \<le> unat (tick i)
                   then unat (tick i) - unat (lastTick l)
                   else unat (tick i) + 2 ^ 32 - unat (lastTick l)) * 0.001)"
proof (intro impI, elim conjE)
  assume pv: "pointer_valid w" and it: "iteration i l w = Next_pass l' w'"
  from iteration_Next_pass(1) [OF pv it] obtain hs where
    hs: "\<forall>c\<in>set hs. \<not> is_loop_call c"
    and tr: "trace w' = trace w @
             [C_PeekMessage (peeked (queue w @ arrivals i)), C_TranslateMessage (msg l'),
              C_DispatchMessage (msg l')] @ hs @ [C_GetTickCount (tick i)] @
             (if gApplication w' \<noteq> 0 then frame_calls i l (gVertexArrayObject w') else [])"
    by blast
  have u: "update_args (new_calls w w') =
       (if gApplication w' \<noteq> 0
        then [FMul (FOfDword (tick i - lastTick l)) (FLit 0.001)] else [])"
    by (simp add: new_calls_def tr update_args_handler [OF hs] update_args_frame_calls)
  have e: "exact (FMul (FOfDword (tick i - lastTick l)) (FLit 0.001)) =
       Some (real (if unat (lastTick l) \<le> unat (tick i)
                   then unat (tick i) - unat (lastTick l)
                   else unat (tick i) + 2 ^ 32 - unat (lastTick l)) * 0.001)"
    by (simp add: unat_sub_if')
  from iteration_Next_pass(3) [OF pv it] u e
  show "lastTick l' = tick i \<and>
     update_args (new_calls w w') =
       (if gApplication w' \<noteq> 0
        then [FMul (FOfDword (tick i - lastTick l)) (FLit 0.001)] else []) \<and>
     exact (FMul (FOfDword (tick i - lastTick l)) (FLit 0.001)) =
       Some (real (if unat (lastTick l) \<le> unat (tick i)
                   then unat (tick i) - unat (lastTick l)
                   else unat (tick i) + 2 ^ 32 - unat (lastTick l)) * 0.001)"
    by blast
qed

lemma idle_pass:
  "iteration i_idle l_wrap w_alive = Next_pass (l_wrap\<lparr>lastTick := 16\<rparr>) w_idle"
  by (simp add: iteration_def pump_part i_idle_def l_wrap_def l_alive_def w_alive_def w_idle_def
      wm_defs WndProc_def update_application_def render_application_def present_def Let_def
      invoke_def emit_def rc0_def)

theorem delta_time_witness:
  "pointer_valid w_alive \<and>
   lastTick (pass_locals (iteration i_idle l_wrap w_alive)) = 16 \<and>
   update_args (new_calls w_alive (pass_world (iteration i_idle l_wrap w_alive))) =
     [FMul (FOfDword 32) (FLit 0.001)] \<and>
   exact (FMul (FOfDword 32) (FLit 0.001)) = Some (32 * 0.001)"
proof -
  have pv: "pointer_valid w_alive" by (simp add: pointer_valid_def w_alive_def)
  have t: "tick i_idle = 16" "lastTick l_wrap = 4294967280"
    by (simp_all add: i_idle_def l_wrap_def)
  have g: "gApplication w_idle \<noteq> 0" by (simp add: w_idle_def)
  from delta_time [of w_alive i_idle l_wrap "l_wrap\<lparr>lastTick := 16\<rparr>" w_idle] pv idle_pass g
  show ?thesis by (simp add: t)
qed

text \<open>
  C7. In a pass that runs to its end with the Application alive, the client rectangle is
  read again, \<open>clientWidth\<close> and \<open>clientHeight\<close> become its extents, and \<^verbatim>\<open>Render\<close> is
  called once with \<^verbatim>\<open>(float)clientWidth / (float)clientHeight\<close>; for positive extents the
  value of this expression over the reals is the ratio of width to height.
\<close>

theorem aspect_ratio:
  "pointer_valid w \<and> iteration i l w = Next_pass l' w' \<longrightarrow>
     render_args (new_calls w w') =
       (if gApplication w' \<noteq> 0
        then [FDiv (FOfInt (right (clientRect i) - left (clientRect i)))
                   (FOfInt (bottom (clientRect i) - top (clientRect i)))]
        else []) \<and>
     (gApplication w' \<noteq> 0 \<longrightarrow>
        C_GetClientRect (clientRect i) \<in> set (new_calls w w') \<and>
        clientWidth l' = right (clientRect i) - left (clientRect i) \<and>
        clientHeight l' = bottom (clientRect i) - top (clientRect i)) \<and>
     (0 < sint (right (clientRect i) - left (clientRect i)) \<and>
      0 < sint (bottom (clientRect i) - top (clientRect i)) \<longrightarrow>
        exact (FDiv (FOfInt (right (clientRect i) - left (clientRect i)))
                    (FOfInt (bottom (clientRect i) - top (clientRect i)))) =
          Some (real_of_int (sint (right (clientRect i) - left (clientRect i))) /
                real_of_int (sint (bottom (clientRect i) - top (clientRect i)))))"
proof (intro impI, elim conjE)
  assume pv: "pointer_valid w" and it: "iteration i l w = Next_pass l' w'"
  from iteration_Next_pass(1) [OF pv it] obtain hs where
    hs: "\<forall>c\<in>set hs. \<not> is_loop_call c"
    and tr: "trace w' = trace w @
             [C_PeekMessage (peeked (queue w @ arrivals i)), C_TranslateMessage (msg l'),
              C_DispatchMessage (msg l')] @ hs @ [C_GetTickCount (tick i)] @
             (if gApplication w' \<noteq> 0 then frame_calls i l (gVertexArrayObject w') else [])"
    by blast
  have r: "render_args (new_calls w w') =
       (if gApplication w' \<noteq> 0
        then [FDiv (FOfInt (right (clientRect i) - left (clientRect i)))
                   (FOfInt (bottom (clientRect i) - top (clientRect i)))]
        else [])"
    by (simp add: new_calls_def tr render_args_handler [OF hs] update_args_frame_calls)
  have g: "gApplication w' \<noteq> 0 \<longrightarrow> C_GetClientRect (clientRect i) \<in> set (new_calls w w')"
    by (simp add: new_calls_def tr update_args_frame_calls)
  have e: "0 < sint (right (clientRect i) - left (clientRect i)) \<and>
      0 < sint (bottom (clientRect i) - top (clientRect i)) \<longrightarrow>
        exact (FDiv (FOfInt (right (clientRect i) - left (clientRect i)))
                    (FOfInt (bottom (clientRect i) - top (clientRect i)))) =
          Some (real_of_int (sint (right (clientRect i) - left (clientRect i))) /
                real_of_int (sint (bottom (clientRect i) - top (clientRect i))))"
    by (simp del: of_int_sint)
  from r g e iteration_Next_pass(5) [OF pv it]
  show "render_args (new_calls w w') =
       (if gApplication w' \<noteq> 0
        then [FDiv (FOfInt (right (clientRect i) - left (clientRect i)))
                   (FOfInt (bottom (clientRect i) - top (clientRect i)))]
        else []) \<and>
     (gApplication w' \<noteq> 0 \<longrightarrow>
        C_GetClientRect (clientRect i) \<in> set (new_calls w w') \<and>
        clientWidth l' = right (clientRect i) - left (clientRect i) \<and>
        clientHeight l' = bottom (clientRect i) - top (clientRect i)) \<and>
     (0 < sint (right (clientRect i) - left (clientRect i)) \<and>
      0 < sint (bottom (clientRect i) - top (clientRect i)) \<longrightarrow>
        exact (FDiv (FOfInt (right (clientRect i) - left (clientRect i)))
                    (FOfInt (bottom (clientRect i) - top (clientRect i)))) =
          Some (real_of_int (sint (right (clientRect i) - left (clientRect i))) /
                real_of_int (sint (bottom (clientRect i) - top (clientRect i)))))"
    by blast
qed

theorem aspect_ratio_witness:
  "pointer_valid w_alive \<and>
   render_args (new_calls w_alive (pass_world (iteration i_idle l_wrap w_alive))) =
     [FDiv (FOfInt 800) (FOfInt 600)] \<and>
   clientWidth (pass_locals (iteration i_idle l_wrap w_alive)) = 800 \<and>
   clientHeight (pass_locals (iteration i_idle l_wrap w_alive)) = 600 \<and>
   exact (FDiv (FOfInt 800) (FOfInt 600)) = Some (800 / 600)"
proof -
  have pv: "pointer_valid w_alive" by (simp add: pointer_valid_def w_alive_def)
  have r: "clientRect i_idle = \<lparr>left = 0, top = 0, right = 800, bottom = 600\<rparr>"
    by (simp add: i_idle_def rc0_def)
  have g: "gApplication w_idle \<noteq> 0" by (simp add: w_idle_def)
  from aspect_ratio [of w_alive i_idle l_wrap "l_wrap\<lparr>lastTick := 16\<rparr>" w_idle] pv idle_pass g
  show ?thesis by (simp add: r)
qed

section \<open>Start-up\<close>

lemma startup_facts:
  "msg (fst (startup p)) = stack_msg p"
  "lastTick (fst (startup p)) = GetTickCount p"
  "queue (snd (startup p)) = []"
  "gApplication (snd (startup p)) = 1"
  "heap_Application (snd (startup p))"
proof -
  have q: "queue (emit c w) = queue w" "queue (emits cs w) = queue w"
    "queue (snd (enable_vsynch p w)) = queue w" for c cs w
    by (simp_all add: emit_def emits_def enable_vsynch_def Let_def)
  have g: "gApplication (emits cs w) = gApplication w"
    "gApplication (snd (enable_vsynch p w)) = gApplication w" for cs w
    by (simp_all add: emits_def enable_vsynch_def Let_def)
  have h: "heap_Application (emit c w) = heap_Application w"
    "heap_Application (emits cs w) = heap_Application w"
    "heap_Application (snd (enable_vsynch p w)) = heap_Application w" for c cs w
    by (simp_all add: emit_def emits_def enable_vsynch_def Let_def)
  show "msg (fst (startup p)) = stack_msg p" "lastTick (fst (startup p)) = GetTickCount p"
    by (simp_all add: startup_def Let_def split_beta)
  show "queue (snd (startup p)) = []"
    by (simp add: startup_def Let_def split_beta q invoke_def create_window_def
        store_gVertexArrayObject_def store_gApplication_def world0_def)
  show "gApplication (snd (startup p)) = 1"
    by (simp add: startup_def Let_def split_beta g create_window_def
        store_gVertexArrayObject_def store_gApplication_def)
  show "heap_Application (snd (startup p))"
    by (simp add: startup_def Let_def split_beta g h invoke_def create_window_def
        store_gVertexArrayObject_def store_gApplication_def)
qed

lemma startup_p0:
  "startup p0 =
     (\<lparr>main_hwnd = 7, main_hdc = 9, vsynch = 1, clientWidth = 800, clientHeight = 600,
       lastTick = 1000, msg = \<lparr>hwnd = 0, message = 0, wParam = 0, lParam = 0\<rparr>\<rparr>,
      \<lparr>gApplication = 1, gVertexArrayObject = 1, heap_Application = True, fault = False,
       queue = [], trace = take 37 trace0\<rparr>)"
  by (simp add: startup_def p0_def Let_def enable_vsynch_def emits_def emit_def
     create_window_def windowRect_def c_div_def store_gApplication_def store_gVertexArrayObject_def
    invoke_def world0_def trace0_def)

lemma scenario_run:
  "WinMain p0 ins0 =
     Returned 0 \<lparr>gApplication = 0, gVertexArrayObject = 0, heap_Application = False,
                 fault = False, queue = [], trace = trace0\<rparr>"
  by (simp add: WinMain_def startup_p0 ins0_def Let_def emit_def
    invoke_def iteration_def pump_part msg_defs wm_defs WndProc_def update_application_def
   render_application_def present_def on_WM_CLOSE_def DestroyWindow_def on_WM_DESTROY_def
   PostQuitMessage_def delete_gApplication_def
   store_gApplication_def store_gVertexArrayObject_def
   after_loop_def rc0_def trace0_def)

text \<open>
  C9. With no message pending, the poll still translates and dispatches the buffer: the
  window procedure runs on the fields the buffer holds. After a pass that received a
  message the buffer holds that message, so an idle pass behind it dispatches it again.
  In the first pass the buffer is what the stack held.
\<close>

theorem stale_buffer_dispatched:
  "(queue w = [] \<longrightarrow>
      process_window_events l w =
        Next_pass l
          (WndProc (hwnd (msg l)) (message (msg l)) (wParam (msg l)) (lParam (msg l))
            (w\<lparr>trace := trace w @ [C_PeekMessage None, C_TranslateMessage (msg l),
                                    C_DispatchMessage (msg l)]\<rparr>))) \<and>
   (queue v @ arrivals i = m # ms \<and> iteration i k v = Next_pass k' v' \<longrightarrow> msg k' = m) \<and>
   (arrivals j = [] \<longrightarrow>
      take 3 (new_calls (snd (startup p)) (final_world (WinMain p [j]))) =
        [C_PeekMessage None, C_TranslateMessage (stack_msg p), C_DispatchMessage (stack_msg p)])"
proof -
  have a: "queue w = [] \<longrightarrow>
      process_window_events l w =
        Next_pass l
          (WndProc (hwnd (msg l)) (message (msg l)) (wParam (msg l)) (lParam (msg l))
            (w\<lparr>trace := trace w @ [C_PeekMessage None, C_TranslateMessage (msg l),
                                    C_DispatchMessage (msg l)]\<rparr>))"
    by (simp add: pump_part)
  have b: "queue v @ arrivals i = m # ms \<and> iteration i k v = Next_pass k' v' \<longrightarrow> msg k' = m"
    using msg_after_pass [of i k v k' v'] by auto
  have c: "take 3 (new_calls (snd (startup p)) (final_world (WinMain p [j]))) =
        [C_PeekMessage None, C_TranslateMessage (stack_msg p), C_DispatchMessage (stack_msg p)]"
    if e: "arrivals j = []"
  proof -
    obtain l0 w0 where s: "startup p = (l0, w0)" by (cases "startup p")
    with startup_facts [of p] have f: "msg l0 = stack_msg p" "queue w0 = []"
      "gApplication w0 = 1" "heap_Application w0" by simp_all
    then have pv: "pointer_valid w0" by (simp add: pointer_valid_def)
    from e f(2) have "\<not> (\<exists>l' w'. iteration j l0 w0 = Break l' w')"
      by (simp add: iteration_Break_iff)
    then obtain l' w' where it: "iteration j l0 w0 = Next_pass l' w'"
      by (cases "iteration j l0 w0") auto
    from iteration_Next_pass(1,2) [OF pv it] e f(1,2)
    have "take 3 (new_calls w0 w') =
        [C_PeekMessage None, C_TranslateMessage (stack_msg p), C_DispatchMessage (stack_msg p)]"
      by (auto simp add: new_calls_def peeked_def)
    with s it show ?thesis by (simp add: WinMain_def)
  qed
  from a b c show ?thesis by blast
qed

theorem stale_buffer_dispatched_witness:
  "process_window_events (l_alive\<lparr>msg := m_keydown\<rparr>) w_alive =
     Next_pass (l_alive\<lparr>msg := m_keydown\<rparr>)
       \<lparr>gApplication = 1, gVertexArrayObject = 1, heap_Application = True, fault = False,
        queue = [],
        trace = [C_PeekMessage None, C_TranslateMessage m_keydown,
                 C_DispatchMessage m_keydown, C_DefWindowProc 7 WM_KEYDOWN 65 0]\<rparr>"
proof -
  have e: "queue w_alive = []" by (simp add: w_alive_def)
  show ?thesis
    using stale_buffer_dispatched [of w_alive "l_alive\<lparr>msg := m_keydown\<rparr>"] e
    by (simp add: m_keydown_def w_alive_def WndProc_def wm_defs emit_def)
qed

section \<open>The liveness of the Application in every run\<close>

text \<open>A pass that starts with the null pointer.\<close>

lemma WndProc_dead:
  "gApplication w = 0 \<Longrightarrow>
   gApplication (WndProc h m wp lp w) = 0 \<and> fault (WndProc h m wp lp w) = fault w \<and>
   (\<exists>hs. trace (WndProc h m wp lp w) = trace w @ hs \<and> filter is_member_call hs = [])"
  by (simp add: WndProc_def on_WM_CLOSE_def DestroyWindow_def on_WM_DESTROY_def
      PostQuitMessage_def store_gVertexArrayObject_def emit_def)

lemma frame_dead:
  "gApplication w1 = 0 \<Longrightarrow>
   update_application t l1 w1 = (l2, w2) \<Longrightarrow> render_application rc l2 w2 = (l3, w3) \<Longrightarrow>
   present l3 w3 = w1\<lparr>trace := trace w1 @ [C_GetTickCount t]\<rparr>"
  by (auto simp add: update_application_def render_application_def present_def Let_def emit_def)

lemma dead_pass:
  assumes d: "gApplication w = 0"
  shows "gApplication (pass_world (iteration i l w)) = 0 \<and>
   fault (pass_world (iteration i l w)) = fault w \<and>
   filter is_member_call (new_calls w (pass_world (iteration i l w))) = []"
proof (cases "\<exists>m ms. queue w @ arrivals i = m # ms \<and> message m = WM_QUIT")
  case True
  then obtain m ms where q: "queue w @ arrivals i = m # ms" "message m = WM_QUIT" by blast
  from iteration_quit [OF q, of l] d show ?thesis
    by (simp add: new_calls_def)
next
  case False
  define b where "b = (case queue w @ arrivals i of [] \<Rightarrow> msg l | m # ms \<Rightarrow> m)"
  define v where "v = w\<lparr>queue := tl (queue w @ arrivals i),
      trace := trace w @ [C_PeekMessage (peeked (queue w @ arrivals i)), C_TranslateMessage b,
                          C_DispatchMessage b]\<rparr>"
  define w1 where "w1 = WndProc (hwnd b) (message b) (wParam b) (lParam b) v"
  from False have p: "process_window_events l (w\<lparr>queue := queue w @ arrivals i\<rparr>) =
      Next_pass (l\<lparr>msg := b\<rparr>) w1"
    by (auto simp add: pump_part b_def v_def w1_def peeked_def split: list.splits)
  obtain l2 w2 where u: "update_application (tick i) (l\<lparr>msg := b\<rparr>) w1 = (l2, w2)"
    by (cases "update_application (tick i) (l\<lparr>msg := b\<rparr>) w1")
  obtain l3 w3 where r: "render_application (clientRect i) l2 w2 = (l3, w3)"
    by (cases "render_application (clientRect i) l2 w2")
  have it: "iteration i l w = Next_pass l3 (present l3 w3)"
    by (simp add: iteration_def p u r)
  have dv: "gApplication v = 0" using d by (simp add: v_def)
  from WndProc_dead [OF dv, of "hwnd b" "message b" "wParam b" "lParam b"] obtain hs where
    h: "gApplication w1 = 0" "fault w1 = fault v" "trace w1 = trace v @ hs"
       "filter is_member_call hs = []"
    unfolding w1_def by blast
  from frame_dead [OF h(1) u r] h d show ?thesis
    by (simp add: it new_calls_def v_def)
qed

text \<open>
  C4. In every run of \<^verbatim>\<open>WinMain\<close>, whatever the platform answers and whatever messages
  come in: no member call goes through a null or dangling pointer and nothing is deleted
  twice; \<^verbatim>\<open>Shutdown\<close> is called at most once; behind the first \<^verbatim>\<open>Shutdown\<close> there is no
  \<^verbatim>\<open>Update\<close>, no \<^verbatim>\<open>Render\<close> and no second \<^verbatim>\<open>Shutdown\<close>. A pass that starts with the
  null pointer, whatever it dispatches, makes no member call, raises no fault and leaves
  the pointer null.
\<close>

theorem liveness_invariant:
  "\<not> fault (final_world (WinMain p ins)) \<and>
   count_list (trace (final_world (WinMain p ins))) App_Shutdown \<le> 1 \<and>
   (\<forall>c\<in>set (calls_after_Shutdown (trace (final_world (WinMain p ins)))).
      c \<noteq> App_Shutdown \<and> \<not> is_frame_call c) \<and>
   (gApplication w = 0 \<longrightarrow>
      gApplication (pass_world (iteration i l w)) = 0 \<and>
      fault (pass_world (iteration i l w)) = fault w \<and>
      filter is_member_call (new_calls w (pass_world (iteration i l w))) = [])"
proof -
  obtain l0 w0 where s: "startup p = (l0, w0)" by (cases "startup p")
  with guarded_startup [of p] have g0: "guarded w0" by simp
  have g: "guarded (loop_world (game_loop ins l0 w0))"
    by (rule guarded_game_loop [OF g0])
  have 1: "\<not> fault (final_world (WinMain p ins)) \<and>
    (\<forall>c\<in>set (calls_after_Shutdown (trace (final_world (WinMain p ins)))).
      c \<noteq> App_Shutdown \<and> \<not> is_frame_call c)"
  proof (cases "game_loop ins l0 w0")
    case (Running l1 w1)
    with g s show ?thesis by (simp add: WinMain_def guarded_def)
  next
    case (Exited l1 w1)
    with g have "guarded w1" by simp
    from after_loop_guarded [OF this] Exited s show ?thesis by (simp add: WinMain_def)
  qed
  from 1 have "\<forall>c\<in>set (calls_after_Shutdown (trace (final_world (WinMain p ins)))).
      c \<noteq> App_Shutdown" by simp
  then have 2: "count_list (trace (final_world (WinMain p ins))) App_Shutdown \<le> 1"
    by (rule count_Shutdown)
  have 3: "gApplication w = 0 \<longrightarrow>
      gApplication (pass_world (iteration i l w)) = 0 \<and>
      fault (pass_world (iteration i l w)) = fault w \<and>
      filter is_member_call (new_calls w (pass_world (iteration i l w))) = []"
    by (rule impI) (rule dead_pass)
  from 1 2 3 show ?thesis
    by (intro conjI)
       (rule conjunct1, assumption, assumption, rule conjunct2, assumption, assumption)
qed

theorem liveness_invariant_witness:
  "\<not> fault (final_world (WinMain p0 ins0)) \<and>
   count_list (trace (final_world (WinMain p0 ins0))) App_Shutdown = 1 \<and>
   length (calls_after_Shutdown (trace (final_world (WinMain p0 ins0)))) = 16 \<and>
   filter (\<lambda>c. c = App_Shutdown \<or> is_frame_call c)
     (calls_after_Shutdown (trace (final_world (WinMain p0 ins0)))) = [] \<and>
   filter is_member_call
     (new_calls (final_world (WinMain p0 ins0))
        (pass_world (iteration \<lparr>arrivals = [m_close], tick = 1100, clientRect = rc0\<rparr> l_alive
           (final_world (WinMain p0 ins0))))) = []"
proof -
  have d: "gApplication (final_world (WinMain p0 ins0)) = 0"
    by (simp add: scenario_run)
  have c: "count_list (trace (final_world (WinMain p0 ins0))) App_Shutdown = 1"
    "length (calls_after_Shutdown (trace (final_world (WinMain p0 ins0)))) = 16"
    by (simp_all add: scenario_run trace0_def calls_after_Shutdown_def)
  from liveness_invariant [of p0 ins0 "final_world (WinMain p0 ins0)"
      "\<lparr>arrivals = [m_close], tick = 1100, clientRect = rc0\<rparr>" l_alive] d c
  show ?thesis by (simp add: filter_empty_conv)
qed

section \<open>The exit code\<close>

lemma iteration_Break_msg:
  assumes "iteration i l w = Break l' w'"
  shows "\<exists>ms. queue w @ arrivals i = msg l' # ms \<and> message (msg l') = WM_QUIT"
proof -
  from assms iteration_Break_iff [of i l w] obtain m ms where
    q: "queue w @ arrivals i = m # ms" "message m = WM_QUIT" by blast
  from iteration_quit [OF q, of l] assms have "l' = l\<lparr>msg := m\<rparr>" by simp
  with q show ?thesis by simp
qed

lemma quits_carry_zero_iteration:
  assumes z: "quits_carry_zero w" and a: "\<forall>m\<in>set (arrivals i). message m \<noteq> WM_QUIT"
  shows "quits_carry_zero (pass_world (iteration i l w))"
proof -
  from z a have q: "\<forall>m\<in>set (queue w @ arrivals i). message m = WM_QUIT \<longrightarrow> wParam m = 0"
    by (auto simp add: quits_carry_zero_def list_all_iff)
  have "set (tl (queue w @ arrivals i)) \<subseteq> set (queue w @ arrivals i)"
    by (cases "queue w @ arrivals i") auto
  with q have t: "\<forall>m\<in>set (tl (queue w @ arrivals i)). message m = WM_QUIT \<longrightarrow> wParam m = 0"
    by blast
  from iteration_pump [of i l w] obtain posted where
    p: "queue (pass_world (iteration i l w)) = tl (queue w @ arrivals i) @ posted"
       "posted = [] \<or> posted = [\<lparr>hwnd = 0, message = WM_QUIT, wParam = 0, lParam = 0\<rparr>]"
    by blast
  from p(2) have "\<forall>m\<in>set posted. message m = WM_QUIT \<longrightarrow> wParam m = 0" by auto
  with t show ?thesis
    unfolding quits_carry_zero_def list_all_iff p(1) by auto
qed

lemma game_loop_exit:
  "game_loop ins l w = Exited l' w' \<Longrightarrow> message (msg l') = WM_QUIT"
proof (induction ins arbitrary: l w)
  case Nil
  then show ?case by simp
next
  case (Cons i ins)
  show ?case
  proof (cases "iteration i l w")
    case (Break l1 w1)
    with Cons.prems iteration_Break_msg [OF Break] show ?thesis by simp
  next
    case (Next_pass l1 w1)
    with Cons show ?thesis by simp
  qed
qed

lemma game_loop_exit_zero:
  "quits_carry_zero w \<Longrightarrow> \<forall>i\<in>set ins. \<forall>m\<in>set (arrivals i). message m \<noteq> WM_QUIT \<Longrightarrow>
   game_loop ins l w = Exited l' w' \<Longrightarrow> wParam (msg l') = 0"
proof (induction ins arbitrary: l w)
  case Nil
  then show ?case by simp
next
  case (Cons i ins)
  from Cons.prems(2) have a: "\<forall>m\<in>set (arrivals i). message m \<noteq> WM_QUIT"
    and r: "\<forall>i\<in>set ins. \<forall>m\<in>set (arrivals i). message m \<noteq> WM_QUIT" by simp_all
  show ?case
  proof (cases "iteration i l w")
    case (Break l1 w1)
    from iteration_Break_msg [OF Break] obtain ms where
      q: "queue w @ arrivals i = msg l1 # ms" "message (msg l1) = WM_QUIT" by blast
    from Cons.prems(1) a have "\<forall>m\<in>set (queue w @ arrivals i). message m = WM_QUIT \<longrightarrow> wParam m = 0"
      by (auto simp add: quits_carry_zero_def list_all_iff)
    with q have "wParam (msg l1) = 0" by simp
    with Break Cons.prems(3) show ?thesis by simp
  next
    case (Next_pass l1 w1)
    from quits_carry_zero_iteration [OF Cons.prems(1) a, of l] Next_pass
    have "quits_carry_zero w1" by simp
    from Cons.IH [OF this r] Next_pass Cons.prems(3) show ?thesis by simp
  qed
qed

text \<open>
  C10. The destroy branch posts the quit notification with payload 0. The loop is left
  only with a quit message in the buffer. So when no quit message comes from elsewhere,
  the value \<^verbatim>\<open>WinMain\<close> returns, \<^verbatim>\<open>(int)msg.wParam\<close>, is 0.
\<close>

theorem exit_code_zero:
  "(gVertexArrayObject w \<noteq> 0 \<longrightarrow>
      queue (WndProc h WM_DESTROY wp lp w) =
        queue w @ [\<lparr>hwnd = 0, message = WM_QUIT, wParam = 0, lParam = 0\<rparr>] \<and>
      C_PostQuitMessage 0 \<in> set (new_calls w (WndProc h WM_DESTROY wp lp w))) \<and>
   (game_loop ins l v = Exited l' v' \<longrightarrow> message (msg l') = WM_QUIT) \<and>
   ((\<forall>j\<in>set js. \<forall>m\<in>set (arrivals j). message m \<noteq> WM_QUIT) \<and>
    WinMain p js = Returned code u \<longrightarrow> code = 0)"
proof -
  have a: "gVertexArrayObject w \<noteq> 0 \<longrightarrow>
      queue (WndProc h WM_DESTROY wp lp w) =
        queue w @ [\<lparr>hwnd = 0, message = WM_QUIT, wParam = 0, lParam = 0\<rparr>] \<and>
      C_PostQuitMessage 0 \<in> set (new_calls w (WndProc h WM_DESTROY wp lp w))"
    by (simp add: WndProc_def wm_defs on_WM_DESTROY_allocated emit_def new_calls_def)
  have b: "game_loop ins l v = Exited l' v' \<longrightarrow> message (msg l') = WM_QUIT"
    using game_loop_exit [of ins l v l' v'] by blast
  have c: "code = 0"
    if n: "\<forall>j\<in>set js. \<forall>m\<in>set (arrivals j). message m \<noteq> WM_QUIT"
      and r: "WinMain p js = Returned code u"
  proof -
    obtain l0 w0 where s: "startup p = (l0, w0)" by (cases "startup p")
    with startup_facts(3) [of p] have z: "quits_carry_zero w0"
      by (simp add: quits_carry_zero_def)
    from r s obtain l1 w1 where g: "game_loop js l0 w0 = Exited l1 w1"
      and cd: "code = ucast (wParam (msg l1))"
      by (cases "game_loop js l0 w0") (auto simp add: WinMain_def)
    from game_loop_exit_zero [OF z n g] cd show ?thesis by simp
  qed
  from a b c show ?thesis by blast
qed

theorem exit_code_zero_witness:
  "WinMain p0 ins0 =
     Returned 0 \<lparr>gApplication = 0, gVertexArrayObject = 0, heap_Application = False,
                 fault = False, queue = [], trace = trace0\<rparr> \<and>
   list_all (\<lambda>j. list_all (\<lambda>m. message m \<noteq> WM_QUIT) (arrivals j)) ins0"
proof -
  have n: "\<forall>j\<in>set ins0. \<forall>m\<in>set (arrivals j). message m \<noteq> WM_QUIT"
    by (simp add: ins0_def msg_defs wm_defs)
  have "\<exists>c. WinMain p0 ins0 =
     Returned c \<lparr>gApplication = 0, gVertexArrayObject = 0, heap_Application = False,
                 fault = False, queue = [], trace = trace0\<rparr>"
    by (simp add: scenario_run)
  then obtain c where r: "WinMain p0 ins0 =
     Returned c \<lparr>gApplication = 0, gVertexArrayObject = 0, heap_Application = False,
                 fault = False, queue = [], trace = trace0\<rparr>" by blast
  from exit_code_zero [where js = ins0 and p = p0 and code = c] n r have "c = 0" by blast
  with r n show ?thesis by (simp add: list_all_iff)
qed

section \<open>Window creation\<close>

text \<open>
  C5. On the 1920 by 1080 display the rectangle adjusted for the style is 816 by 639,
  around the centred 800 by 600 client area, and its corner (552, 209) is the position
  passed to \<^verbatim>\<open>CreateWindowEx\<close>; the width and height passed are 1920 and 1080, the
  screen's, not the rectangle's. On every display the size passed is the screen's.
\<close>

theorem window_created_at_screen_size:
  "windowRect p0 = \<lparr>left = 552, top = 209, right = 1368, bottom = 848\<rparr> \<and>
   trace (create_window p0 world0) =
     [C_GetSystemMetrics, C_GetSystemMetrics, C_other ''SetRect'',
      C_other ''AdjustWindowRectEx'', C_CreateWindowEx 552 209 1920 1080] \<and>
   last (trace (create_window p w)) =
     C_CreateWindowEx (left (windowRect p)) (top (windowRect p)) (SM_CXSCREEN p) (SM_CYSCREEN p)"
  by (simp add: create_window_def windowRect_def p0_def c_div_def emits_def emit_def world0_def)

end
